theory Spec2Isabelle
  imports Complex_Main
begin

section \<open>Tensors\<close>

text \<open>
  The metric functions of \<^verbatim>\<open>climate_learn/metrics/functional.py\<close> work on
  \<^verbatim>\<open>torch.Tensor\<close> values. A tensor is modelled as a contiguous array: its
  shape and its elements in row-major order. Floating-point numbers are idealised as
  real numbers; a division by zero and the square root of a negative number, which give
  NaN or an infinity in the program and never raise, have HOL's values here
  (\<open>x / 0 = 0\<close>, \<open>sqrt (- x) = - sqrt x\<close>). Where a property depends on the
  rounding of the floating-point operations, the section on single-precision arithmetic
  models the rounding.

  Every exception the program can raise is a value \<open>Inl e\<close> of the result.
\<close>

datatype error =
  AttributeError | TypeError | IndexError | RuntimeError | ValueError

record tensor =
  shape :: "nat list"
  data :: "real list"

definition ebind :: "error + 'a \<Rightarrow> ('a \<Rightarrow> error + 'b) \<Rightarrow> error + 'b" where
  "ebind m f = (case m of Inl e \<Rightarrow> Inl e | Inr x \<Rightarrow> f x)"

definition numel :: "tensor \<Rightarrow> nat" where
  "numel t = prod_list (shape t)"

definition tensor_ok :: "tensor \<Rightarrow> bool" where
  "tensor_ok t = (length (data t) = prod_list (shape t))"

text \<open>All indices of a shape, in row-major order, and the offset of an index.\<close>

fun indices :: "nat list \<Rightarrow> nat list list" where
  "indices [] = [[]]"
| "indices (d # ds) = concat (map (\<lambda>i. map ((#) i) (indices ds)) [0..<d])"

fun ravel :: "nat list \<Rightarrow> nat list \<Rightarrow> nat" where
  "ravel (d # ds) (i # is) = i * prod_list ds + ravel ds is"
| "ravel _ _ = 0"

definition valid_index :: "nat list \<Rightarrow> nat list \<Rightarrow> bool" where
  "valid_index sh i = list_all2 (<) i sh"

definition mk :: "nat list \<Rightarrow> (nat list \<Rightarrow> real) \<Rightarrow> tensor" where
  "mk sh f = \<lparr>shape = sh, data = map f (indices sh)\<rparr>"

definition elem :: "tensor \<Rightarrow> nat list \<Rightarrow> real" where
  "elem t i = data t ! ravel (shape t) i"

definition scalar :: "real \<Rightarrow> tensor" where
  "scalar x = \<lparr>shape = [], data = [x]\<rparr>"

definition mean_list :: "real list \<Rightarrow> real" where
  "mean_list xs = sum_list xs / real (length xs)"

subsection \<open>Element-wise operations and broadcasting\<close>

definition map_tensor :: "(real \<Rightarrow> real) \<Rightarrow> tensor \<Rightarrow> tensor" where
  "map_tensor f t = t\<lparr>data := map f (data t)\<rparr>"

definition square :: "tensor \<Rightarrow> tensor" where
  "square t = map_tensor (\<lambda>x. x * x) t"

definition pow2 :: "tensor \<Rightarrow> tensor" where
  "pow2 t = map_tensor (\<lambda>x. x ^ 2) t"

definition sqrt_t :: "tensor \<Rightarrow> tensor" where
  "sqrt_t t = map_tensor sqrt t"

text \<open>
  Broadcasting aligns two shapes at their last dimension; two sizes are compatible when
  they are equal or one of them is 1. \<open>bshape_rev\<close> works on the reversed shapes.
\<close>

fun bshape_rev :: "nat list \<Rightarrow> nat list \<Rightarrow> nat list option" where
  "bshape_rev [] ys = Some ys"
| "bshape_rev (x # xs) [] = Some (x # xs)"
| "bshape_rev (x # xs) (y # ys) =
     (if x = y \<or> y = 1 then map_option ((#) x) (bshape_rev xs ys)
      else if x = 1 then map_option ((#) y) (bshape_rev xs ys)
      else None)"

definition broadcast_shapes :: "nat list \<Rightarrow> nat list \<Rightarrow> nat list option" where
  "broadcast_shapes a b = map_option rev (bshape_rev (rev a) (rev b))"

text \<open>The index into an operand of shape \<open>s\<close> for the index \<open>i\<close> of the broadcast result.\<close>

definition bclamp :: "nat \<Rightarrow> nat \<Rightarrow> nat" where
  "bclamp d k = (if d = 1 then 0 else k)"

definition bidx :: "nat list \<Rightarrow> nat list \<Rightarrow> nat list" where
  "bidx s i = map2 bclamp s (drop (length i - length s) i)"

definition binop :: "(real \<Rightarrow> real \<Rightarrow> real) \<Rightarrow> tensor \<Rightarrow> tensor \<Rightarrow> error + tensor" where
  "binop f a b =
     (case broadcast_shapes (shape a) (shape b) of
        None \<Rightarrow> Inl RuntimeError
      | Some sh \<Rightarrow> Inr (mk sh (\<lambda>i. f (elem a (bidx (shape a) i)) (elem b (bidx (shape b) i)))))"

definition sub :: "tensor \<Rightarrow> tensor \<Rightarrow> error + tensor" where
  "sub a b = binop (-) a b"

definition mul :: "tensor \<Rightarrow> tensor \<Rightarrow> error + tensor" where
  "mul a b = binop (*) a b"

definition div_t :: "tensor \<Rightarrow> tensor \<Rightarrow> error + tensor" where
  "div_t a b = binop (/) a b"

text \<open>
  An operand that may be \<^verbatim>\<open>None\<close>: arithmetic between \<^verbatim>\<open>None\<close> and a tensor
  raises \<^verbatim>\<open>TypeError\<close>.
\<close>

definition sub_opt :: "tensor \<Rightarrow> tensor option \<Rightarrow> error + tensor" where
  "sub_opt a b = (case b of None \<Rightarrow> Inl TypeError | Some b' \<Rightarrow> sub a b')"

definition mul_opt :: "tensor option \<Rightarrow> tensor \<Rightarrow> error + tensor" where
  "mul_opt a b = (case a of None \<Rightarrow> Inl TypeError | Some a' \<Rightarrow> mul a' b)"

subsection \<open>Shape access and reshaping\<close>

text \<open>\<^verbatim>\<open>x.shape[k]\<close> for a constant \<open>k \<ge> 0\<close>.\<close>

definition shape_at :: "tensor \<Rightarrow> nat \<Rightarrow> error + nat" where
  "shape_at t k = (if k < length (shape t) then Inr (shape t ! k) else Inl IndexError)"

text \<open>\<^verbatim>\<open>lat_weights.shape[k]\<close> where the tensor may be \<^verbatim>\<open>None\<close>.\<close>

definition shape_at_opt :: "tensor option \<Rightarrow> nat \<Rightarrow> error + nat" where
  "shape_at_opt t k = (case t of None \<Rightarrow> Inl AttributeError | Some t' \<Rightarrow> shape_at t' k)"

definition unsqueeze0 :: "tensor \<Rightarrow> tensor" where
  "unsqueeze0 t = t\<lparr>shape := 1 # shape t\<rparr>"

definition squeeze :: "tensor \<Rightarrow> tensor" where
  "squeeze t = t\<lparr>shape := filter (\<lambda>d. d \<noteq> 1) (shape t)\<rparr>"

definition squeeze0 :: "tensor \<Rightarrow> tensor" where
  "squeeze0 t = (case shape t of d # ds \<Rightarrow> if d = 1 then t\<lparr>shape := ds\<rparr> else t | [] \<Rightarrow> t)"

definition flatten :: "tensor \<Rightarrow> tensor" where
  "flatten t = t\<lparr>shape := [numel t]\<rparr>"

subsection \<open>Reductions\<close>

text \<open>
  A dimension argument may be negative and counts from the end then; a tensor of rank 0
  is treated as of rank 1 for the range check. The dimension lists that the metrics pass
  (\<open>[0, 2, 3]\<close>, \<open>[2, 3]\<close>, \<open>[-2, -1]\<close>, \<open>[0]\<close>, \<open>[1]\<close>) never name a
  dimension twice when they are in range.
\<close>

definition wrap_dim :: "nat \<Rightarrow> int \<Rightarrow> error + nat" where
  "wrap_dim r d =
     (let r' = int (max r 1)
      in if - r' \<le> d \<and> d < r' then Inr (nat (if d < 0 then d + r' else d))
         else Inl IndexError)"

fun wrap_dims :: "nat \<Rightarrow> int list \<Rightarrow> error + nat list" where
  "wrap_dims r [] = Inr []"
| "wrap_dims r (d # ds) =
     ebind (wrap_dim r d) (\<lambda>d'. ebind (wrap_dims r ds) (\<lambda>ds'. Inr (d' # ds')))"

text \<open>
  \<open>weave m js ks\<close> builds a full index from the index \<open>js\<close> of the kept dimensions and
  the index \<open>ks\<close> of the reduced ones; \<open>m\<close> marks the reduced positions.
\<close>

fun weave :: "bool list \<Rightarrow> nat list \<Rightarrow> nat list \<Rightarrow> nat list" where
  "weave [] js ks = []"
| "weave (True # m) js (k # ks) = k # weave m js ks"
| "weave (False # m) (j # js) ks = j # weave m js ks"
| "weave (True # m) js [] = []"
| "weave (False # m) [] ks = []"

definition pick :: "bool list \<Rightarrow> 'a list \<Rightarrow> 'a list" where
  "pick m xs = map snd (filter fst (zip m xs))"

definition reduce_mask :: "tensor \<Rightarrow> nat list \<Rightarrow> bool list" where
  "reduce_mask t ds = map (\<lambda>p. p \<in> set ds) [0..<length (shape t)]"

text \<open>
  The sum or the mean over the dimensions \<open>ds\<close>. With \<open>keepdim\<close> the reduced
  dimensions stay in the shape with size 1.
\<close>

definition reduce_dims :: "bool \<Rightarrow> tensor \<Rightarrow> nat list \<Rightarrow> bool \<Rightarrow> tensor" where
  "reduce_dims avg t ds keepdim =
     (let m = reduce_mask t ds;
          kept = pick (map Not m) (shape t);
          red = pick m (shape t);
          val = (\<lambda>j. let s = sum_list (map (\<lambda>k. elem t (weave m j k)) (indices red))
                     in if avg then s / real (prod_list red) else s)
      in if keepdim
         then mk (map2 (\<lambda>b d. if b then 1 else d) m (shape t)) (\<lambda>i. val (pick (map Not m) i))
         else mk kept val)"

definition mean_dims :: "tensor \<Rightarrow> int list \<Rightarrow> bool \<Rightarrow> error + tensor" where
  "mean_dims t dims keepdim =
     (if shape t = [] then ebind (wrap_dims 0 dims) (\<lambda>_. Inr t)
      else ebind (wrap_dims (length (shape t)) dims) (\<lambda>ds. Inr (reduce_dims True t ds keepdim)))"

definition mean_all :: "tensor \<Rightarrow> tensor" where
  "mean_all t = scalar (sum_list (data t) / real (numel t))"

definition sum_all :: "tensor \<Rightarrow> tensor" where
  "sum_all t = scalar (sum_list (data t))"

subsection \<open>Joining and splitting\<close>

text \<open>
  \<^verbatim>\<open>torch.cat\<close> along dimension 0. A tensor of rank 0 cannot be concatenated; a
  tensor of shape \<open>[0]\<close> is skipped; the others must agree in rank and in every size but
  the first.
\<close>

definition cat :: "tensor list \<Rightarrow> error + tensor" where
  "cat ts =
     (if ts = [] \<or> (\<exists>t \<in> set ts. shape t = []) then Inl RuntimeError
      else let us = filter (\<lambda>t. shape t \<noteq> [0]) ts
           in case us of
                [] \<Rightarrow> Inr \<lparr>shape = [0], data = []\<rparr>
              | u # _ \<Rightarrow>
                  if \<forall>t \<in> set us. tl (shape t) = tl (shape u)
                  then Inr \<lparr>shape = sum_list (map (\<lambda>t. hd (shape t)) us) # tl (shape u),
                            data = concat (map data us)\<rparr>
                  else Inl RuntimeError)"

text \<open>\<^verbatim>\<open>torch.stack\<close>: a non-empty list of tensors of one shape, along a new first axis.\<close>

definition stack :: "tensor list \<Rightarrow> error + tensor" where
  "stack ts =
     (case ts of
        [] \<Rightarrow> Inl RuntimeError
      | u # _ \<Rightarrow>
          if \<forall>t \<in> set ts. shape t = shape u
          then Inr \<lparr>shape = length ts # shape u, data = concat (map data ts)\<rparr>
          else Inl RuntimeError)"

text \<open>The slice \<open>start \<le> i < start + len\<close> of the dimension \<open>ax\<close>.\<close>

definition narrow :: "tensor \<Rightarrow> nat \<Rightarrow> nat \<Rightarrow> nat \<Rightarrow> tensor" where
  "narrow t ax start len =
     mk ((shape t)[ax := len]) (\<lambda>i. elem t (i[ax := i ! ax + start]))"

text \<open>
  \<^verbatim>\<open>torch.tensor_split(x, n, dim)\<close> for a number of sections \<open>n > 0\<close>: the first
  \<open>sz mod n\<close> sections have \<open>sz div n + 1\<close> entries, the others \<open>sz div n\<close>.
\<close>

definition section_bounds :: "nat \<Rightarrow> nat \<Rightarrow> (nat \<times> nat) list" where
  "section_bounds sz n =
     map (\<lambda>k. (k * (sz div n) + min k (sz mod n),
               sz div n + (if k < sz mod n then 1 else 0))) [0..<n]"

definition tensor_split :: "tensor \<Rightarrow> nat \<Rightarrow> int \<Rightarrow> error + tensor list" where
  "tensor_split t n ax =
     (if shape t = [] then Inl RuntimeError
      else ebind (wrap_dim (length (shape t)) ax) (\<lambda>d.
             Inr (map (\<lambda>(start, len). narrow t d start len)
                      (section_bounds (shape t ! d) n))))"

text \<open>\<^verbatim>\<open>x[:, i]\<close>: the entry \<open>i\<close> of dimension 1, which leaves the shape.\<close>

definition select1 :: "tensor \<Rightarrow> nat \<Rightarrow> error + tensor" where
  "select1 t i =
     (case shape t of
        n # c # rest \<Rightarrow>
          if i < c then Inr (mk (n # rest) (\<lambda>j. elem t (hd j # i # tl j)))
          else Inl IndexError
      | _ \<Rightarrow> Inl IndexError)"

subsection \<open>Rounding to single precision\<close>

text \<open>
  An arithmetic operation on \<^verbatim>\<open>float\<close> values returns the exact result rounded
  to the nearest number with a significand of 24 bits, ties to the even significand.
  Numbers too large or too small for the exponent range are not modelled. \<open>fl32\<close> is
  that rounding.
\<close>

definition round_half_even :: "real \<Rightarrow> int" where
  "round_half_even x =
     (let f = \<lfloor>x\<rfloor>
      in if x - of_int f < 1 / 2 then f
         else if 1 / 2 < x - of_int f then f + 1
         else if even f then f else f + 1)"

definition fl32 :: "real \<Rightarrow> real" where
  "fl32 x =
     (if x = 0 then 0
      else let u = 2 powr (of_int \<lfloor>log 2 \<bar>x\<bar>\<rfloor> - 23)
           in of_int (round_half_even (x / u)) * u)"

subsection \<open>Library functions of \<^verbatim>\<open>torch.nn.functional\<close>\<close>

text \<open>
  \<^verbatim>\<open>F.interpolate(x, size=(h, w))\<close> in its default mode, nearest neighbour: the
  input has rank 4, and the entry \<open>i\<close> of an output axis reads the entry
  \<open>\<lfloor>i * (in / out)\<rfloor>\<close> of the input axis. The kernel computes the scale
  \<open>in / out\<close> and its product with \<open>i\<close> in single precision, except when the
  output axis has the size of the input axis or twice its size.
\<close>

definition nearest_idx :: "nat \<Rightarrow> nat \<Rightarrow> nat \<Rightarrow> nat" where
  "nearest_idx i n_in n_out =
     (if n_out = n_in then i
      else if n_out = 2 * n_in then i div 2
      else min (nat \<lfloor>fl32 (real i * fl32 (real n_in / real n_out))\<rfloor>) (n_in - 1))"

definition interpolate :: "tensor \<Rightarrow> nat \<times> nat \<Rightarrow> error + tensor" where
  "interpolate x sz =
     (case shape x of
        [n, c, h_in, w_in] \<Rightarrow>
          (let h_out = fst sz; w_out = snd sz
           in if c = 0 \<or> h_in = 0 \<or> w_in = 0 \<or> h_out = 0 \<or> w_out = 0 then Inl RuntimeError
              else Inr (mk [n, c, h_out, w_out]
                     (\<lambda>i. elem x [i ! 0, i ! 1,
                                   nearest_idx (i ! 2) h_in h_out,
                                   nearest_idx (i ! 3) w_in w_out])))
      | _ \<Rightarrow> Inl ValueError)"

definition expand :: "tensor \<Rightarrow> nat list \<Rightarrow> tensor" where
  "expand t sh = mk sh (\<lambda>i. elem t (bidx (shape t) i))"

definition zip_tensor :: "(real \<Rightarrow> real \<Rightarrow> real) \<Rightarrow> tensor \<Rightarrow> tensor \<Rightarrow> tensor" where
  "zip_tensor f a b = \<lparr>shape = shape a, data = map2 f (data a) (data b)\<rparr>"

text \<open>
  \<^verbatim>\<open>F.cosine_similarity(x1, x2)\<close> with its defaults \<open>dim = 1\<close> and
  \<open>eps = 1e-8\<close>: the two tensors are broadcast to one shape, and along dimension 1
  the result is \<open>x1 \<cdot> x2 / (max \<parallel>x1\<parallel> eps * max \<parallel>x2\<parallel> eps)\<close>.
\<close>

definition cosine_eps :: real where
  "cosine_eps = 1 / 10 ^ 8"

definition cosine_similarity :: "tensor \<Rightarrow> tensor \<Rightarrow> error + tensor" where
  "cosine_similarity x1 x2 =
     (case broadcast_shapes (shape x1) (shape x2) of
        None \<Rightarrow> Inl RuntimeError
      | Some sh \<Rightarrow>
          ebind (wrap_dim (length sh) 1) (\<lambda>d.
            let a = expand x1 sh; b = expand x2 sh;
                w12 = reduce_dims False (zip_tensor (*) a b) [d] False;
                n1 = map_tensor (\<lambda>n. max n cosine_eps) (sqrt_t (reduce_dims False (square a) [d] False));
                n2 = map_tensor (\<lambda>n. max n cosine_eps) (sqrt_t (reduce_dims False (square b) [d] False))
            in Inr (zip_tensor (/) w12 (zip_tensor (*) n1 n2))))"

section \<open>The metrics\<close>

text \<open>
  Each metric returns the aggregate score as a tensor of rank 0 when
  \<open>aggregate_only\<close> holds, and otherwise the per-channel scores followed by the
  aggregate score, as a tensor of rank 1. The optional argument \<open>lat_weights\<close> is
  \<open>None\<close> when the caller leaves it out.
\<close>

definition return_scores :: "bool \<Rightarrow> tensor \<Rightarrow> tensor \<Rightarrow> error + tensor" where
  "return_scores aggregate_only per_channel loss =
     (if aggregate_only then Inr loss else cat [per_channel, unsqueeze0 loss])"

definition apply_weights :: "tensor \<Rightarrow> tensor option \<Rightarrow> error + tensor" where
  "apply_weights x lat_weights = (case lat_weights of None \<Rightarrow> Inr x | Some w \<Rightarrow> mul x w)"

text \<open>
  \<open>mse\<close> reads \<^verbatim>\<open>lat_weights.shape[2]\<close> before it tests
  \<^verbatim>\<open>lat_weights is not None\<close>.
\<close>

definition mse_resample :: "tensor \<Rightarrow> tensor option \<Rightarrow> error + tensor option" where
  "mse_resample err lat_weights =
     ebind (shape_at_opt lat_weights 2) (\<lambda>lw2.
     ebind (shape_at err 2) (\<lambda>e2.
       if lw2 \<noteq> e2
       then (case lat_weights of
               None \<Rightarrow> Inl TypeError
             | Some w \<Rightarrow> ebind (interpolate w (e2, 1)) (\<lambda>w'. Inr (Some w')))
       else Inr lat_weights))"

definition mse_error :: "tensor \<Rightarrow> tensor \<Rightarrow> tensor option \<Rightarrow> error + tensor" where
  "mse_error pred target lat_weights =
     ebind (sub pred target) (\<lambda>d.
     ebind (mse_resample (square d) lat_weights) (\<lambda>lat_weights'.
       apply_weights (square d) lat_weights'))"

definition mse :: "tensor \<Rightarrow> tensor \<Rightarrow> bool \<Rightarrow> tensor option \<Rightarrow> error + tensor" where
  "mse pred target aggregate_only lat_weights =
     ebind (mse_error pred target lat_weights) (\<lambda>err.
     ebind (mean_dims err [0, 2, 3] False) (\<lambda>per_channel_losses.
       return_scores aggregate_only per_channel_losses (mean_all err)))"

text \<open>
  For \<open>rmse\<close>, \<open>nrmses\<close>, \<open>nrmseg\<close>, \<open>acc\<close> and \<open>pearson\<close>, the value of the
  program's variable \<^verbatim>\<open>per_channel_losses\<close> (\<^verbatim>\<open>per_channel_acc\<close>,
  \<^verbatim>\<open>per_channel_coeffs\<close>) is a function of its own here; the program computes the
  aggregate score as the mean of that tensor.
\<close>

definition rmse_per_channel :: "tensor \<Rightarrow> tensor \<Rightarrow> tensor option \<Rightarrow> error + tensor" where
  "rmse_per_channel pred target lat_weights =
     ebind (sub pred target) (\<lambda>d.
     ebind (apply_weights (square d) lat_weights) (\<lambda>err.
     ebind (mean_dims err [2, 3] False) (\<lambda>m.
       mean_dims (sqrt_t m) [0] False)))"

definition rmse :: "tensor \<Rightarrow> tensor \<Rightarrow> bool \<Rightarrow> tensor option \<Rightarrow> error + tensor" where
  "rmse pred target aggregate_only lat_weights =
     ebind (rmse_per_channel pred target lat_weights) (\<lambda>per_channel_losses.
       return_scores aggregate_only per_channel_losses (mean_all per_channel_losses))"

definition nrmses_per_channel ::
  "tensor \<Rightarrow> tensor \<Rightarrow> tensor \<Rightarrow> tensor option \<Rightarrow> error + tensor" where
  "nrmses_per_channel pred target clim lat_weights =
     (let y_normalization = squeeze clim in
      ebind (mean_dims pred [0] False) (\<lambda>pm.
      ebind (mean_dims target [0] False) (\<lambda>tm.
      ebind (sub pm tm) (\<lambda>d.
      ebind (apply_weights (pow2 d) (map_option squeeze0 lat_weights)) (\<lambda>err.
      ebind (mean_dims err [-2, -1] False) (\<lambda>m.
        div_t (sqrt_t m) y_normalization))))))"

definition nrmses ::
  "tensor \<Rightarrow> tensor \<Rightarrow> tensor \<Rightarrow> bool \<Rightarrow> tensor option \<Rightarrow> error + tensor" where
  "nrmses pred target clim aggregate_only lat_weights =
     ebind (nrmses_per_channel pred target clim lat_weights) (\<lambda>per_channel_losses.
       return_scores aggregate_only per_channel_losses (mean_all per_channel_losses))"

definition nrmseg_per_channel ::
  "tensor \<Rightarrow> tensor \<Rightarrow> tensor \<Rightarrow> tensor option \<Rightarrow> error + tensor" where
  "nrmseg_per_channel pred target clim lat_weights =
     (let y_normalization = squeeze clim in
      ebind (apply_weights pred lat_weights) (\<lambda>pred'.
      ebind (apply_weights target lat_weights) (\<lambda>target'.
      ebind (mean_dims pred' [-2, -1] False) (\<lambda>pm.
      ebind (mean_dims target' [-2, -1] False) (\<lambda>tm.
      ebind (sub pm tm) (\<lambda>d.
      ebind (mean_dims (pow2 d) [0] False) (\<lambda>m.
        div_t (sqrt_t m) y_normalization)))))))"

definition nrmseg ::
  "tensor \<Rightarrow> tensor \<Rightarrow> tensor \<Rightarrow> bool \<Rightarrow> tensor option \<Rightarrow> error + tensor" where
  "nrmseg pred target clim aggregate_only lat_weights =
     ebind (nrmseg_per_channel pred target clim lat_weights) (\<lambda>per_channel_losses.
       return_scores aggregate_only per_channel_losses (mean_all per_channel_losses))"

text \<open>
  One round of the loop of \<open>acc\<close>, for the channel \<open>i\<close>: the values of the
  program's variables \<^verbatim>\<open>numer\<close>, \<^verbatim>\<open>denom1\<close> and \<^verbatim>\<open>denom2\<close>, and the
  coefficient that is appended to the list.
\<close>

definition acc_terms ::
  "tensor \<Rightarrow> tensor \<Rightarrow> tensor option \<Rightarrow> nat \<Rightarrow> error + tensor \<times> tensor \<times> tensor" where
  "acc_terms pred target lat_weights i =
     ebind (select1 pred i) (\<lambda>p.
     ebind (sub p (mean_all p)) (\<lambda>pred_prime.
     ebind (select1 target i) (\<lambda>t.
     ebind (sub t (mean_all t)) (\<lambda>target_prime.
     ebind (mul_opt lat_weights pred_prime) (\<lambda>wp.
     ebind (mul wp target_prime) (\<lambda>wpt.
     ebind (mul_opt lat_weights (square pred_prime)) (\<lambda>wpp.
     ebind (mul_opt lat_weights (square target_prime)) (\<lambda>wtt.
       Inr (sum_all wpt, sum_all wpp, sum_all wtt)))))))))"

definition acc_channel :: "tensor \<Rightarrow> tensor \<Rightarrow> tensor option \<Rightarrow> nat \<Rightarrow> error + tensor" where
  "acc_channel pred target lat_weights i =
     ebind (acc_terms pred target lat_weights i) (\<lambda>(numer, denom1, denom2).
     ebind (mul denom1 denom2) (\<lambda>dd.
       div_t numer (sqrt_t dd)))"

fun acc_loop :: "tensor \<Rightarrow> tensor \<Rightarrow> tensor option \<Rightarrow> nat list \<Rightarrow> error + tensor list" where
  "acc_loop pred target lat_weights [] = Inr []"
| "acc_loop pred target lat_weights (i # is) =
     ebind (acc_channel pred target lat_weights i) (\<lambda>x.
     ebind (acc_loop pred target lat_weights is) (\<lambda>xs. Inr (x # xs)))"

definition acc_per_channel ::
  "tensor \<Rightarrow> tensor \<Rightarrow> tensor option \<Rightarrow> tensor option \<Rightarrow> error + tensor" where
  "acc_per_channel pred target climatology lat_weights =
     ebind (sub_opt pred climatology) (\<lambda>pred'.
     ebind (sub_opt target climatology) (\<lambda>target'.
     ebind (shape_at pred' 1) (\<lambda>c.
     ebind (acc_loop pred' target' lat_weights [0..<c]) (\<lambda>per_channel_list.
       stack per_channel_list))))"

definition acc_metric ::
  "tensor \<Rightarrow> tensor \<Rightarrow> tensor option \<Rightarrow> bool \<Rightarrow> tensor option \<Rightarrow> error + tensor" where
  "acc_metric pred target climatology aggregate_only lat_weights =
     ebind (acc_per_channel pred target climatology lat_weights) (\<lambda>per_channel_acc.
       return_scores aggregate_only per_channel_acc (mean_all per_channel_acc))"

definition flatten_channel_wise :: "tensor \<Rightarrow> error + tensor" where
  "flatten_channel_wise x = ebind (tensor_split x 2 1) (\<lambda>xs. stack (map flatten xs))"

definition pearson_per_channel :: "tensor \<Rightarrow> tensor \<Rightarrow> error + tensor" where
  "pearson_per_channel pred target =
     ebind (flatten_channel_wise pred) (\<lambda>p.
     ebind (flatten_channel_wise target) (\<lambda>t.
     ebind (mean_dims p [1] True) (\<lambda>pm.
     ebind (sub p pm) (\<lambda>pred'.
     ebind (mean_dims t [1] True) (\<lambda>tm.
     ebind (sub t tm) (\<lambda>target'.
       cosine_similarity pred' target'))))))"

definition pearson :: "tensor \<Rightarrow> tensor \<Rightarrow> bool \<Rightarrow> error + tensor" where
  "pearson pred target aggregate_only =
     ebind (pearson_per_channel pred target) (\<lambda>per_channel_coeffs.
       return_scores aggregate_only per_channel_coeffs (mean_all per_channel_coeffs))"

definition mean_bias :: "tensor \<Rightarrow> tensor \<Rightarrow> bool \<Rightarrow> error + tensor" where
  "mean_bias pred target aggregate_only =
     ebind (sub (mean_all target) (mean_all pred)) (\<lambda>result.
       if \<not> aggregate_only
       then ebind (mean_dims target [0, 2, 3] False) (\<lambda>tm.
            ebind (mean_dims pred [0, 2, 3] False) (\<lambda>pm.
            ebind (sub tm pm) (\<lambda>per_channel_mean_bias.
              cat [per_channel_mean_bias, unsqueeze0 result])))
       else Inr result)"

section \<open>Single-precision arithmetic\<close>










section \<open>The formulas of the specification\<close>

text \<open>
  The contract of the score tensor: when the metric returns its sequence of scores, the
  sequence is not empty, its last element is the arithmetic mean of the elements before
  it, and the call with \<open>aggregate_only\<close> returns that mean.
\<close>

definition mean_contract :: "error + tensor \<Rightarrow> error + tensor \<Rightarrow> bool" where
  "mean_contract full aggregate =
     (case full of
        Inl e \<Rightarrow> True
      | Inr r \<Rightarrow>
          data r \<noteq> [] \<and> last (data r) = mean_list (butlast (data r)) \<and>
          aggregate = Inr (scalar (mean_list (butlast (data r)))))"


text \<open>The per-channel scores \<open>f 0, \<dots>, f (c - 1)\<close> followed by their mean.\<close>

definition score_sequence :: "(nat \<Rightarrow> real) \<Rightarrow> nat \<Rightarrow> real list" where
  "score_sequence f c = map f [0..<c] @ [mean_list (map f [0..<c])]"

text \<open>
  The latitude weight that broadcasting puts at the index \<open>i\<close> of a field, 1 when no
  weights are supplied; the weights fit a shape when they broadcast to it without
  enlarging it.
\<close>

definition weight_at :: "tensor option \<Rightarrow> nat list \<Rightarrow> real" where
  "weight_at lat_weights i =
     (case lat_weights of None \<Rightarrow> 1 | Some w \<Rightarrow> elem w (bidx (shape w) i))"

definition weights_fit :: "nat list \<Rightarrow> tensor option \<Rightarrow> bool" where
  "weights_fit sh lat_weights =
     (case lat_weights of
        None \<Rightarrow> True
      | Some w \<Rightarrow> tensor_ok w \<and> broadcast_shapes sh (shape w) = Some sh)"

text \<open>
  The weighted squared error at an index, and the scores of \<open>rmse\<close> and \<open>mse\<close> for
  the channel \<open>j\<close> of fields of shape \<open>[n, c, h, w]\<close> as the specification words
  them: for \<open>rmse\<close> the mean over the samples of the square roots of the spatial means,
  for \<open>mse\<close> the mean over samples and space.
\<close>

definition sq_err :: "tensor \<Rightarrow> tensor \<Rightarrow> tensor option \<Rightarrow> nat list \<Rightarrow> real" where
  "sq_err pred target lat_weights i =
     (elem pred i - elem target i) * (elem pred i - elem target i) * weight_at lat_weights i"

definition rmse_score ::
  "tensor \<Rightarrow> tensor \<Rightarrow> tensor option \<Rightarrow> nat \<Rightarrow> nat \<Rightarrow> nat \<Rightarrow> nat \<Rightarrow> real" where
  "rmse_score pred target lat_weights n h w j =
     (\<Sum>x<n. sqrt ((\<Sum>y<h. \<Sum>z<w. sq_err pred target lat_weights [x, j, y, z]) / real (h * w)))
     / real n"

definition mse_score ::
  "tensor \<Rightarrow> tensor \<Rightarrow> tensor option \<Rightarrow> nat \<Rightarrow> nat \<Rightarrow> nat \<Rightarrow> nat \<Rightarrow> real" where
  "mse_score pred target lat_weights n h w j =
     (\<Sum>x<n. \<Sum>y<h. \<Sum>z<w. sq_err pred target lat_weights [x, j, y, z]) / real (n * h * w)"

text \<open>
  The spatial mean of the weighted field for the sample \<open>x\<close> and the channel \<open>j\<close>,
  and the normalisation value of the channel \<open>j\<close>, read from the squeezed climatology.
\<close>

definition weighted_mean_hw ::
  "tensor \<Rightarrow> tensor option \<Rightarrow> nat \<Rightarrow> nat \<Rightarrow> nat \<Rightarrow> nat \<Rightarrow> real" where
  "weighted_mean_hw t lat_weights h w x j =
     (\<Sum>y<h. \<Sum>z<w. elem t [x, j, y, z] * weight_at lat_weights [x, j, y, z]) / real (h * w)"

definition clim_at :: "tensor \<Rightarrow> nat \<Rightarrow> real" where
  "clim_at clim j = elem (squeeze clim) (bidx (shape (squeeze clim)) [j])"

definition clim_fit :: "nat \<Rightarrow> tensor \<Rightarrow> bool" where
  "clim_fit c clim = (tensor_ok clim \<and> broadcast_shapes [c] (shape (squeeze clim)) = Some [c])"

text \<open>\<^verbatim>\<open>torch.ones(sh)\<close>.\<close>

definition ones :: "nat list \<Rightarrow> tensor" where
  "ones sh = mk sh (\<lambda>i. 1)"

section \<open>Example inputs\<close>

text \<open>
  A prediction and a target with one sample, two channels and a grid of 1 by 2 points,
  unit latitude weights and a unit climatology.
\<close>

definition ex_pred :: tensor where
  "ex_pred = \<lparr>shape = [1, 2, 1, 2], data = [0, 2, 0, 2]\<rparr>"

definition ex_target :: tensor where
  "ex_target = \<lparr>shape = [1, 2, 1, 2], data = [2, 0, 2, 0]\<rparr>"

definition ex_field :: tensor where
  "ex_field = \<lparr>shape = [1, 2, 1, 2], data = [0, 4, 0, 4]\<rparr>"

definition ex_weights :: tensor where
  "ex_weights = \<lparr>shape = [1, 1, 1, 1], data = [1]\<rparr>"

definition ex_clim :: tensor where
  "ex_clim = \<lparr>shape = [1, 2, 1, 1], data = [1, 1]\<rparr>"




text \<open>Two samples of one channel and one grid point, with squared errors 0 and 4.\<close>

definition two_pred :: tensor where
  "two_pred = \<lparr>shape = [2, 1, 1, 1], data = [0, 2]\<rparr>"

definition two_target :: tensor where
  "two_target = \<lparr>shape = [2, 1, 1, 1], data = [0, 0]\<rparr>"

text \<open>
  One sample of one channel on a grid of 4 by 1 points, with a squared error of 4
  everywhere, and uniform latitude weights \<open>1 / H\<close>.
\<close>

definition uni_pred :: tensor where
  "uni_pred = \<lparr>shape = [1, 1, 4, 1], data = [2, 2, 2, 2]\<rparr>"

definition uni_target :: tensor where
  "uni_target = \<lparr>shape = [1, 1, 4, 1], data = [0, 0, 0, 0]\<rparr>"

definition uni_weights :: tensor where
  "uni_weights = \<lparr>shape = [1, 1, 4, 1], data = [1 / 4, 1 / 4, 1 / 4, 1 / 4]\<rparr>"

text \<open>A prediction that is constant over its channel, and a climatology of zero.\<close>

definition flat_pred :: tensor where
  "flat_pred = \<lparr>shape = [1, 1, 1, 2], data = [3, 3]\<rparr>"

definition flat_target :: tensor where
  "flat_target = \<lparr>shape = [1, 1, 1, 2], data = [1, 3]\<rparr>"

definition zero_clim :: tensor where
  "zero_clim = \<lparr>shape = [1, 1, 1, 1], data = [0]\<rparr>"

section \<open>Properties of the tensor operations\<close>

lemma ebind_simps [simp]: "ebind (Inl e) f = Inl e" "ebind (Inr x) f = f x"
  by (simp_all add: ebind_def)

lemma length_concat_const:
  assumes "\<And>x. x \<in> set xs \<Longrightarrow> length (g x) = m"
  shows "length (concat (map g xs)) = length xs * m"
  using assms by (induction xs) auto

lemma length_indices [simp]: "length (indices sh) = prod_list sh"
proof (induction sh)
  case Nil
  show ?case by simp
next
  case (Cons d ds)
  have "length (concat (map (\<lambda>i. map ((#) i) (indices ds)) [0..<d])) = length [0..<d] * prod_list ds"
    by (rule length_concat_const) (simp add: Cons.IH)
  then show ?case by simp
qed

lemma concat_blocks: "concat (map (\<lambda>i. map (\<lambda>r. i * m + r) [0..<m]) [0..<d]) = [0..<d * m]"
proof (induction d)
  case 0
  show ?case by simp
next
  case (Suc d)
  have "map (\<lambda>r. d * m + r) [0..<m] = [d * m..<d * m + m]"
    by (simp add: map_add_upt add.commute)
  moreover have "[0..<d * m + m] = [0..<d * m] @ [d * m..<d * m + m]"
    by (rule upt_add_eq_append) simp
  ultimately show ?case using Suc by (simp add: add.commute)
qed

lemma map_ravel_indices: "map (ravel sh) (indices sh) = [0..<prod_list sh]"
proof (induction sh)
  case Nil
  show ?case by simp
next
  case (Cons d ds)
  have "map (ravel (d # ds)) (indices (d # ds))
      = concat (map (\<lambda>i. map (\<lambda>k. i * prod_list ds + ravel ds k) (indices ds)) [0..<d])"
    by (simp add: map_concat comp_def)
  also have "\<dots> = concat (map (\<lambda>i. map (\<lambda>r. i * prod_list ds + r) (map (ravel ds) (indices ds))) [0..<d])"
    by (simp add: comp_def)
  also have "\<dots> = [0..<d * prod_list ds]"
    unfolding Cons.IH by (rule concat_blocks)
  finally show ?case by simp
qed

lemma set_indices: "set (indices sh) = {i. valid_index sh i}"
proof (induction sh)
  case Nil
  show ?case by (auto simp: valid_index_def)
next
  case (Cons d ds)
  show ?case
  proof (rule set_eqI)
    fix i
    show "i \<in> set (indices (d # ds)) \<longleftrightarrow> i \<in> {i. valid_index (d # ds) i}"
      using Cons by (cases i) (auto simp: valid_index_def)
  qed
qed

lemma valid_index_Nil [simp]: "valid_index [] i \<longleftrightarrow> i = []"
  by (simp add: valid_index_def)

lemma valid_index_Cons [simp]: "valid_index (d # ds) (i # is) \<longleftrightarrow> i < d \<and> valid_index ds is"
  by (simp add: valid_index_def)

lemma indices_ravel:
  assumes "valid_index sh i"
  shows "ravel sh i < prod_list sh \<and> indices sh ! ravel sh i = i"
proof -
  from assms have "i \<in> set (indices sh)" by (simp add: set_indices)
  then obtain k where k: "k < prod_list sh" "indices sh ! k = i"
    by (auto simp: in_set_conv_nth)
  have "map (ravel sh) (indices sh) ! k = [0..<prod_list sh] ! k"
    by (simp only: map_ravel_indices)
  with k have "ravel sh i = k" by simp
  with k show ?thesis by simp
qed

lemma shape_mk [simp]: "shape (mk sh f) = sh"
  by (simp add: mk_def)

lemma tensor_ok_mk [simp]: "tensor_ok (mk sh f)"
  by (simp add: mk_def tensor_ok_def)

lemma elem_mk: "valid_index sh i \<Longrightarrow> elem (mk sh f) i = f i"
  using indices_ravel [of sh i] by (simp add: elem_def mk_def)

lemma data_mk_elem: "tensor_ok t \<Longrightarrow> map (elem t) (indices (shape t)) = data t"
proof -
  assume ok: "tensor_ok t"
  have "map (elem t) (indices (shape t)) = map ((!) (data t)) (map (ravel (shape t)) (indices (shape t)))"
    by (simp add: elem_def comp_def)
  also have "\<dots> = map ((!) (data t)) [0..<length (data t)]"
    using ok by (simp only: map_ravel_indices tensor_ok_def)
  also have "\<dots> = data t" by (rule map_nth)
  finally show ?thesis .
qed

lemma sum_list_concat_upt:
  "sum_list (concat (map g [0..<d])) = (\<Sum>i<d. sum_list (g i) :: real)"
  by (induction d) simp_all

lemma sum_list_indices_Cons:
  "sum_list (map f (indices (d # ds))) = (\<Sum>i<d. sum_list (map (\<lambda>k. f (i # k)) (indices ds)) :: real)"
  by (simp add: map_concat sum_list_concat_upt comp_def)

lemma sum_list_indices_Nil: "sum_list (map f (indices [])) = (f [] :: real)"
  by simp


lemma bshape_rev_same: "bshape_rev xs xs = Some xs"
  by (induction xs) simp_all

lemma broadcast_shapes_same [simp]: "broadcast_shapes s s = Some s"
  by (simp add: broadcast_shapes_def bshape_rev_same)

lemma shape_map_tensor [simp]: "shape (map_tensor f t) = shape t"
  by (simp add: map_tensor_def)

lemma shape_square [simp]: "shape (square t) = shape t"
  by (simp add: square_def)

subsection \<open>Tensors given by their elements\<close>

lemma mk_cong:
  assumes "\<And>i. valid_index sh i \<Longrightarrow> f i = g i"
  shows "mk sh f = mk sh g"
  using assms by (simp add: mk_def set_indices)

lemma mk_elem: "tensor_ok t \<Longrightarrow> mk (shape t) (elem t) = t"
  by (simp add: mk_def data_mk_elem)

lemma data_mk_1: "data (mk [c] f) = map (\<lambda>i. f [i]) [0..<c]"
  by (simp add: mk_def comp_def)

lemma mk_Nil: "mk [] f = scalar (f [])"
  by (simp add: mk_def scalar_def)

lemma map_tensor_mk: "map_tensor g (mk sh f) = mk sh (\<lambda>i. g (f i))"
  by (simp add: map_tensor_def mk_def comp_def)

lemma valid_index_Cons_left:
  "valid_index (d # ds) i \<longleftrightarrow> (\<exists>k ks. i = k # ks \<and> k < d \<and> valid_index ds ks)"
  by (cases i) (simp_all add: valid_index_def)

lemma valid_index_length: "valid_index sh i \<Longrightarrow> length i = length sh"
  by (simp add: valid_index_def list_all2_lengthD)

text \<open>The index map of broadcasting yields valid indices of the operands.\<close>

lemma bclamp_same: "list_all2 (<) i s \<Longrightarrow> map2 bclamp s i = i"
  by (induction rule: list_all2_induct) (auto simp: bclamp_def)

lemma bidx_same: "valid_index s i \<Longrightarrow> bidx s i = i"
  using bclamp_same [of i s]
  by (simp add: bidx_def valid_index_def list_all2_lengthD)

lemma bshape_rev_valid:
  assumes "bshape_rev xs ys = Some zs" "list_all2 (<) i zs"
  shows "list_all2 (<) (map2 bclamp xs i) xs \<and> list_all2 (<) (map2 bclamp ys i) ys"
  using assms
proof (induction xs ys arbitrary: zs i rule: bshape_rev.induct)
  case (1 ys)
  then show ?case using bclamp_same [of i ys] by simp
next
  case (2 x xs)
  then show ?case using bclamp_same [of i "x # xs"] by simp
next
  case (3 x xs y ys)
  then show ?case
    by (auto simp: bclamp_def list_all2_Cons2 split: if_splits)
qed

lemma bshape_rev_length:
  "bshape_rev xs ys = Some zs \<Longrightarrow> length zs = max (length xs) (length ys)"
  by (induction xs ys arbitrary: zs rule: bshape_rev.induct) (auto split: if_splits)

lemma zip_take_left: "zip xs (take (length xs) ys) = zip xs ys"
proof -
  have "zip xs (take (length xs) ys) = zip (take (length xs) xs) (take (length xs) ys)"
    by simp
  also have "\<dots> = take (length xs) (zip xs ys)"
    by (simp only: take_zip)
  also have "\<dots> = zip xs ys"
    by simp
  finally show ?thesis .
qed

lemma rev_bidx:
  assumes "length s \<le> length i"
  shows "rev (bidx s i) = map2 bclamp (rev s) (rev i)"
proof -
  have "rev (bidx s i) = map2 bclamp (rev s) (rev (drop (length i - length s) i))"
    using assms by (simp add: bidx_def rev_map zip_rev)
  also have "\<dots> = map2 bclamp (rev s) (take (length (rev s)) (rev i))"
    using assms by (simp add: rev_drop)
  also have "\<dots> = map2 bclamp (rev s) (rev i)"
    by (simp only: zip_take_left)
  finally show ?thesis .
qed

lemma bidx_valid:
  assumes "broadcast_shapes s1 s2 = Some sh" "valid_index sh i"
  shows "valid_index s1 (bidx s1 i)" and "valid_index s2 (bidx s2 i)"
proof -
  from assms(1) obtain zs where zs: "bshape_rev (rev s1) (rev s2) = Some zs" "sh = rev zs"
    by (auto simp: broadcast_shapes_def)
  have len: "length i = max (length s1) (length s2)"
    using valid_index_length [OF assms(2)] bshape_rev_length [OF zs(1)] zs(2) by simp
  have "list_all2 (<) (rev i) (rev sh)"
    using assms(2) unfolding valid_index_def by (simp only: list_all2_rev)
  then have "list_all2 (<) (rev i) zs"
    using zs(2) by simp
  from bshape_rev_valid [OF zs(1) this]
  have "list_all2 (<) (rev (bidx s1 i)) (rev s1)" "list_all2 (<) (rev (bidx s2 i)) (rev s2)"
    using len by (simp_all add: rev_bidx)
  then show "valid_index s1 (bidx s1 i)" and "valid_index s2 (bidx s2 i)"
    by (simp_all add: valid_index_def)
qed

lemma binop_mk:
  assumes "broadcast_shapes s1 s2 = Some sh"
  shows "binop g (mk s1 f1) (mk s2 f2) = Inr (mk sh (\<lambda>i. g (f1 (bidx s1 i)) (f2 (bidx s2 i))))"
proof -
  have "mk sh (\<lambda>i. g (elem (mk s1 f1) (bidx s1 i)) (elem (mk s2 f2) (bidx s2 i)))
      = mk sh (\<lambda>i. g (f1 (bidx s1 i)) (f2 (bidx s2 i)))"
    by (rule mk_cong) (simp add: elem_mk bidx_valid [OF assms])
  then show ?thesis using assms by (simp add: binop_def)
qed

lemma binop_mk_same:
  "binop g (mk sh f1) (mk sh f2) = Inr (mk sh (\<lambda>i. g (f1 i) (f2 i)))"
proof -
  have "mk sh (\<lambda>i. g (f1 (bidx sh i)) (f2 (bidx sh i))) = mk sh (\<lambda>i. g (f1 i) (f2 i))"
    by (rule mk_cong) (simp add: bidx_same)
  then show ?thesis by (simp add: binop_mk)
qed

lemma binop_mk_left:
  assumes "broadcast_shapes sh s2 = Some sh"
  shows "binop g (mk sh f1) (mk s2 f2) = Inr (mk sh (\<lambda>i. g (f1 i) (f2 (bidx s2 i))))"
proof -
  have "mk sh (\<lambda>i. g (f1 (bidx sh i)) (f2 (bidx s2 i))) = mk sh (\<lambda>i. g (f1 i) (f2 (bidx s2 i)))"
    by (rule mk_cong) (simp add: bidx_same)
  then show ?thesis using assms by (simp add: binop_mk)
qed

lemma tensor_ok_binop: "binop g a b = Inr r \<Longrightarrow> tensor_ok r"
  by (auto simp: binop_def split: option.splits)

lemma tensor_ok_map_tensor [simp]: "tensor_ok (map_tensor g t) = tensor_ok t"
  by (simp add: tensor_ok_def map_tensor_def)

subsection \<open>Reductions of tensors given by their elements\<close>

lemma pick_Cons [simp]:
  "pick (b # m) (x # xs) = (if b then x # pick m xs else pick m xs)"
  by (simp add: pick_def)

lemma pick_Nil [simp]: "pick [] xs = []" "pick m [] = []"
  by (simp_all add: pick_def)

lemma weave_valid:
  assumes "length m = length sh"
    and "valid_index (pick (map Not m) sh) j" "valid_index (pick m sh) k"
  shows "valid_index sh (weave m j k)"
  using assms
proof (induction m arbitrary: sh j k)
  case Nil
  then show ?case by simp
next
  case (Cons b m)
  then obtain d ds where sh: "sh = d # ds" by (cases sh) auto
  show ?case
  proof (cases b)
    case True
    with Cons.prems sh obtain x k' where "k = x # k'" "x < d" "valid_index (pick m ds) k'"
      by (auto simp: valid_index_Cons_left)
    with Cons.prems Cons.IH [of ds j k'] sh True show ?thesis by simp
  next
    case False
    with Cons.prems sh obtain x j' where "j = x # j'" "x < d" "valid_index (pick (map Not m) ds) j'"
      by (auto simp: valid_index_Cons_left)
    with Cons.prems Cons.IH [of ds j' k] sh False show ?thesis by simp
  qed
qed

lemma reduce_dims_mk:
  "reduce_dims avg (mk sh f) ds False =
     mk (pick (map Not (reduce_mask (mk sh f) ds)) sh)
        (\<lambda>j. if avg
             then sum_list (map (\<lambda>k. f (weave (reduce_mask (mk sh f) ds) j k))
                    (indices (pick (reduce_mask (mk sh f) ds) sh)))
                  / real (prod_list (pick (reduce_mask (mk sh f) ds) sh))
             else sum_list (map (\<lambda>k. f (weave (reduce_mask (mk sh f) ds) j k))
                    (indices (pick (reduce_mask (mk sh f) ds) sh))))"
proof -
  define m where "m = reduce_mask (mk sh f) ds"
  have len: "length m = length sh" by (simp add: m_def reduce_mask_def)
  have main: "mk (pick (map Not m) sh)
          (\<lambda>j. if avg
               then sum_list (map (\<lambda>k. elem (mk sh f) (weave m j k)) (indices (pick m sh)))
                    / real (prod_list (pick m sh))
               else sum_list (map (\<lambda>k. elem (mk sh f) (weave m j k)) (indices (pick m sh))))
      = mk (pick (map Not m) sh)
          (\<lambda>j. if avg
               then sum_list (map (\<lambda>k. f (weave m j k)) (indices (pick m sh)))
                    / real (prod_list (pick m sh))
               else sum_list (map (\<lambda>k. f (weave m j k)) (indices (pick m sh))))"
  proof (rule mk_cong)
    fix j
    assume j: "valid_index (pick (map Not m) sh) j"
    have eq: "map (\<lambda>k. elem (mk sh f) (weave m j k)) (indices (pick m sh))
        = map (\<lambda>k. f (weave m j k)) (indices (pick m sh))"
      by (rule map_cong [OF refl]) (simp add: set_indices elem_mk weave_valid [OF len j])
    show "(if avg
               then sum_list (map (\<lambda>k. elem (mk sh f) (weave m j k)) (indices (pick m sh)))
                    / real (prod_list (pick m sh))
               else sum_list (map (\<lambda>k. elem (mk sh f) (weave m j k)) (indices (pick m sh))))
      = (if avg
               then sum_list (map (\<lambda>k. f (weave m j k)) (indices (pick m sh)))
                    / real (prod_list (pick m sh))
               else sum_list (map (\<lambda>k. f (weave m j k)) (indices (pick m sh))))"
      by (simp only: eq)
  qed
  show ?thesis
    unfolding reduce_dims_def Let_def m_def [symmetric] shape_mk
    by (simp only: if_False main)
qed

lemma mean_all_mk:
  "mean_all (mk sh f) = scalar (sum_list (map f (indices sh)) / real (prod_list sh))"
  by (simp add: mean_all_def numel_def mk_def)

lemma valid_index_1: "valid_index [c] j \<longleftrightarrow> (\<exists>x<c. j = [x])"
  by (auto simp: valid_index_Cons_left)

lemma valid_index_2: "valid_index [n, c] j \<longleftrightarrow> (\<exists>x<n. \<exists>y<c. j = [x, y])"
  by (auto simp: valid_index_Cons_left)

lemma sum_list_indices_3:
  "sum_list (map g (indices [n, h, w])) = (\<Sum>a<n. \<Sum>b<h. \<Sum>d<w. g [a, b, d] :: real)"
  by (simp only: sum_list_indices_Cons sum_list_indices_Nil)

lemma sum_list_indices_2:
  "sum_list (map g (indices [h, w])) = (\<Sum>b<h. \<Sum>d<w. g [b, d] :: real)"
  by (simp only: sum_list_indices_Cons sum_list_indices_Nil)

lemma sum_list_indices_1:
  "sum_list (map g (indices [n])) = (\<Sum>a<n. g [a] :: real)"
  by (simp only: sum_list_indices_Cons sum_list_indices_Nil)

lemma sum_list_indices_4:
  "sum_list (map g (indices [n, c, h, w])) = (\<Sum>a<n. \<Sum>j<c. \<Sum>b<h. \<Sum>d<w. g [a, j, b, d] :: real)"
  by (simp only: sum_list_indices_Cons sum_list_indices_Nil)

lemma reduce_dims_023:
  "reduce_dims avg (mk [n, c, h, w] f) [0, 2, 3] False =
     mk [c] (\<lambda>j. let s = (\<Sum>a<n. \<Sum>b<h. \<Sum>d<w. f [a, hd j, b, d])
                 in if avg then s / real (n * h * w) else s)"
  unfolding reduce_dims_mk
  apply (simp add: Let_def reduce_mask_def del: indices.simps)
  apply (rule mk_cong)
  apply (auto simp: valid_index_1 reduce_mask_def sum_list_indices_3 simp del: indices.simps)
  done

section \<open>Properties of the metrics\<close>

text \<open>
  Claim C2. The claim: for \<open>pred\<close> and \<open>target\<close> of equal shape, \<open>mse\<close> called
  without latitude weights succeeds and returns the unweighted mean squared error. The
  program reads \<^verbatim>\<open>lat_weights.shape[2]\<close> before its test
  \<^verbatim>\<open>lat_weights is not None\<close>, so that the call raises
  \<^verbatim>\<open>AttributeError\<close> for every such input.
\<close>

theorem mse_without_weights_fails:
  assumes "shape pred = shape target"
  shows "mse pred target aggregate_only None = Inl AttributeError"
  using assms
  by (simp add: mse_def mse_error_def sub_def binop_def mse_resample_def shape_at_opt_def)

theorem mse_without_weights_fails_witness:
  "shape (mk [2, 2, 4, 4] (\<lambda>i. 1)) = shape (mk [2, 2, 4, 4] (\<lambda>i. 2)) \<and>
   mse (mk [2, 2, 4, 4] (\<lambda>i. 1)) (mk [2, 2, 4, 4] (\<lambda>i. 2)) False None = Inl AttributeError"
  using mse_without_weights_fails [of "mk [2, 2, 4, 4] (\<lambda>i. 1)" "mk [2, 2, 4, 4] (\<lambda>i. 2)" False]
  by simp

subsection \<open>The channel split of \<open>pearson\<close>\<close>

lemma upt_0_2: "[0..<2] = [0, Suc 0]"
  by (simp add: numeral_2_eq_2)

lemma indices_2 [simp]: "indices [2] = [[0], [Suc 0]]"
  by (simp add: upt_0_2)

lemma wrap_dim_nonneg: "0 \<le> d \<Longrightarrow> nat d < r \<Longrightarrow> wrap_dim r d = Inr (nat d)"
  by (auto simp: wrap_dim_def Let_def)

lemma wrap_dim_neg: "d < 0 \<Longrightarrow> - int r \<le> d \<Longrightarrow> wrap_dim r d = Inr (nat (d + int r))"
  by (auto simp: wrap_dim_def Let_def)

lemma section_bounds_even:
  "even c \<Longrightarrow> section_bounds c 2 = [(0, c div 2), (c div 2, c div 2)]"
  by (auto simp: section_bounds_def upt_0_2 elim!: evenE)

lemma section_bounds_odd:
  "odd c \<Longrightarrow> section_bounds c 2 = [(0, c div 2 + 1), (c div 2 + 1, c div 2)]"
  by (auto simp: section_bounds_def upt_0_2 elim!: oddE)

lemma flatten_channel_wise_even:
  assumes "shape x = [n, c, h, w]" "even c"
  shows "\<exists>d. flatten_channel_wise x = Inr \<lparr>shape = [2, n * (c div 2) * h * w], data = d\<rparr>"
proof -
  show ?thesis
    using assms
    by (simp add: flatten_channel_wise_def tensor_split_def wrap_dim_nonneg section_bounds_even
        stack_def flatten_def narrow_def numel_def)
qed

lemma flatten_channel_wise_odd:
  assumes "shape x = [n, c, h, w]" "odd c" "0 < n * h * w"
  shows "flatten_channel_wise x = Inl RuntimeError"
proof -
  show ?thesis
    using assms
    by (simp add: flatten_channel_wise_def tensor_split_def wrap_dim_nonneg section_bounds_odd
        stack_def flatten_def narrow_def numel_def)
qed

lemma mk_2: "mk [2] f = \<lparr>shape = [2], data = [f [0], f [Suc 0]]\<rparr>"
  by (simp add: mk_def upt_0_2)

lemma reduce_dims_rows:
  assumes "shape x = [2, m]"
  shows "\<exists>a b. reduce_dims avg x [Suc 0] False = \<lparr>shape = [2], data = [a, b]\<rparr>"
  using assms by (simp add: reduce_dims_def reduce_mask_def pick_def upt_0_2 mk_2 Let_def)

lemma shape_reduce_dims_keep:
  assumes "shape x = [2, m]"
  shows "shape (reduce_dims avg x [Suc 0] True) = [2, Suc 0]"
  using assms by (simp add: reduce_dims_def reduce_mask_def pick_def upt_0_2 Let_def)

lemma shape_expand [simp]: "shape (expand t sh) = sh"
  by (simp add: expand_def)

lemma shape_zip_tensor [simp]: "shape (zip_tensor f a b) = shape a"
  by (simp add: zip_tensor_def)

lemma cosine_similarity_rows:
  assumes "shape x1 = [2, m]" "shape x2 = [2, m]"
  shows "\<exists>a b. cosine_similarity x1 x2 = Inr \<lparr>shape = [2], data = [a, b]\<rparr>"
proof -
  let ?a = "expand x1 [2, m]" and ?b = "expand x2 [2, m]"
  obtain p q where w12: "reduce_dims False (zip_tensor (*) ?a ?b) [Suc 0] False
      = \<lparr>shape = [2], data = [p, q]\<rparr>"
    using reduce_dims_rows [of "zip_tensor (*) ?a ?b" m False] by auto
  obtain p1 q1 where n1: "reduce_dims False (square ?a) [Suc 0] False
      = \<lparr>shape = [2], data = [p1, q1]\<rparr>"
    using reduce_dims_rows [of "square ?a" m False] by auto
  obtain p2 q2 where n2: "reduce_dims False (square ?b) [Suc 0] False
      = \<lparr>shape = [2], data = [p2, q2]\<rparr>"
    using reduce_dims_rows [of "square ?b" m False] by auto
  have "cosine_similarity x1 x2 =
      Inr (zip_tensor (/) \<lparr>shape = [2], data = [p, q]\<rparr>
            (zip_tensor (*)
              (map_tensor (\<lambda>n. max n cosine_eps) (sqrt_t \<lparr>shape = [2], data = [p1, q1]\<rparr>))
              (map_tensor (\<lambda>n. max n cosine_eps) (sqrt_t \<lparr>shape = [2], data = [p2, q2]\<rparr>))))"
    using assms by (simp add: cosine_similarity_def wrap_dim_nonneg w12 n1 n2 Let_def)
  then show ?thesis
    by (simp add: zip_tensor_def map_tensor_def sqrt_t_def)
qed

lemma shape_sub_keepdim:
  assumes "shape p = [2, m]" "shape pm = [2, Suc 0]"
  shows "\<exists>r. sub p pm = Inr r \<and> shape r = [2, m]"
  using assms by (simp add: sub_def binop_def broadcast_shapes_def)

lemma return_scores_rows:
  "return_scores False \<lparr>shape = [2], data = [a, b]\<rparr> (mean_all \<lparr>shape = [2], data = [a, b]\<rparr>)
     = Inr \<lparr>shape = [3], data = [a, b, (a + b) / 2]\<rparr>"
  by (simp add: return_scores_def cat_def unsqueeze0_def mean_all_def scalar_def numel_def)

lemma pearson_of_two_rows:
  assumes "flatten_channel_wise pred = Inr p" "shape p = [2, m]"
    and "flatten_channel_wise target = Inr t" "shape t = [2, m]"
  shows "\<exists>a b. pearson pred target False = Inr \<lparr>shape = [3], data = [a, b, (a + b) / 2]\<rparr>"
proof -
  let ?pm = "reduce_dims True p [Suc 0] True" and ?tm = "reduce_dims True t [Suc 0] True"
  have pm: "mean_dims p [1] True = Inr ?pm" and tm: "mean_dims t [1] True = Inr ?tm"
    using assms by (simp_all add: mean_dims_def wrap_dim_nonneg)
  obtain p' where p': "sub p ?pm = Inr p'" "shape p' = [2, m]"
    using shape_sub_keepdim [OF assms(2) shape_reduce_dims_keep [OF assms(2)]] by auto
  obtain t' where t': "sub t ?tm = Inr t'" "shape t' = [2, m]"
    using shape_sub_keepdim [OF assms(4) shape_reduce_dims_keep [OF assms(4)]] by auto
  obtain a b where c: "cosine_similarity p' t' = Inr \<lparr>shape = [2], data = [a, b]\<rparr>"
    using cosine_similarity_rows [OF p'(2) t'(2)] by auto
  have "pearson pred target False = Inr \<lparr>shape = [3], data = [a, b, (a + b) / 2]\<rparr>"
    by (simp add: pearson_def pearson_per_channel_def assms(1,3) pm tm p'(1) t'(1) c
        return_scores_rows)
  then show ?thesis by blast
qed

lemma pearson_shape_even:
  assumes "shape pred = [n, c, h, w]" "shape target = [n, c, h, w]" "even c"
  shows "\<exists>a b. pearson pred target False = Inr \<lparr>shape = [3], data = [a, b, (a + b) / 2]\<rparr>"
proof -
  obtain dp where p: "flatten_channel_wise pred = Inr \<lparr>shape = [2, n * (c div 2) * h * w], data = dp\<rparr>"
    using flatten_channel_wise_even [OF assms(1,3)] by auto
  obtain dt where t: "flatten_channel_wise target = Inr \<lparr>shape = [2, n * (c div 2) * h * w], data = dt\<rparr>"
    using flatten_channel_wise_even [OF assms(2,3)] by auto
  show ?thesis
    by (rule pearson_of_two_rows [OF p _ t]) simp_all
qed

text \<open>
  Claim C10. For fields of shape \<open>[n, c, h, w]\<close> with an even channel count
  \<open>c \<ge> 2\<close>, \<open>pearson\<close> with \<open>aggregate_only\<close> false returns exactly three
  values, two coefficients and then their mean, whatever \<open>c\<close> is:
  \<open>flatten_channel_wise\<close> always splits the channel axis into two groups.
\<close>

theorem pearson_returns_three_scores:
  assumes "shape pred = [n, c, h, w]" "shape target = [n, c, h, w]" "even c" "2 \<le> c"
  shows "\<exists>a b. pearson pred target False = Inr \<lparr>shape = [3], data = [a, b, (a + b) / 2]\<rparr>"
  using assms(1-3) by (rule pearson_shape_even)


theorem pearson_returns_three_scores_witness:
  "shape (mk [1, 4, 1, 1] (\<lambda>i. 1)) = [1, 4, 1, 1] \<and> even (4::nat) \<and> (2::nat) \<le> 4 \<and>
   (\<exists>a b. pearson (mk [1, 4, 1, 1] (\<lambda>i. 1)) (mk [1, 4, 1, 1] (\<lambda>i. 1)) False
      = Inr \<lparr>shape = [3], data = [a, b, (a + b) / 2]\<rparr>)"
  using pearson_returns_three_scores [of "mk [1, 4, 1, 1] (\<lambda>i. 1)" 1 4 1 1 "mk [1, 4, 1, 1] (\<lambda>i. 1)"]
  by simp

text \<open>
  Claim C1. The claim: \<open>pearson\<close> reshapes a field of shape \<open>[n, c, h, w]\<close> into
  one row per channel, of shape \<open>[c, n * h * w]\<close>, for every channel count. The
  program splits the channel axis into two sections: four channels give two rows of two
  channels each, and three channels give sections of different sizes, which
  \<^verbatim>\<open>torch.stack\<close> refuses.
\<close>

theorem flatten_channel_wise_four_channels:
  "flatten_channel_wise \<lparr>shape = [1, 4, 1, 1], data = [1, 2, 3, 4]\<rparr>
     = Inr \<lparr>shape = [2, 2], data = [1, 2, 3, 4]\<rparr> \<and>
   flatten_channel_wise \<lparr>shape = [1, 3, 1, 1], data = [1, 2, 3]\<rparr> = Inl RuntimeError"
  by code_simp

text \<open>
  Claim C3. The claim: every metric returns \<open>c + 1\<close> values when
  \<open>aggregate_only\<close> is false, the \<open>c\<close> per-channel values and then the
  aggregate. \<open>pearson\<close> returns three values for a field of four channels, where
  the claim has five, and raises for a field of three channels.
\<close>

theorem pearson_four_channels:
  "(\<exists>a b. pearson \<lparr>shape = [1, 4, 1, 1], data = [1, 2, 3, 4]\<rparr>
             \<lparr>shape = [1, 4, 1, 1], data = [2, 3, 4, 5]\<rparr> False
      = Inr \<lparr>shape = [3], data = [a, b, (a + b) / 2]\<rparr>) \<and>
   pearson \<lparr>shape = [1, 3, 1, 1], data = [1, 2, 3]\<rparr>
           \<lparr>shape = [1, 3, 1, 1], data = [2, 3, 4]\<rparr> False = Inl RuntimeError"
proof
  show "\<exists>a b. pearson \<lparr>shape = [1, 4, 1, 1], data = [1, 2, 3, 4]\<rparr>
             \<lparr>shape = [1, 4, 1, 1], data = [2, 3, 4, 5]\<rparr> False
      = Inr \<lparr>shape = [3], data = [a, b, (a + b) / 2]\<rparr>"
    by (rule pearson_shape_even [where n = 1 and c = 4 and h = 1 and w = 1]) simp_all
  have "flatten_channel_wise \<lparr>shape = [1, 3, 1, 1], data = [1, 2, 3]\<rparr> = Inl RuntimeError"
    by (rule flatten_channel_wise_odd [where n = 1 and c = 3 and h = 1 and w = 1]) simp_all
  then show "pearson \<lparr>shape = [1, 3, 1, 1], data = [1, 2, 3]\<rparr>
           \<lparr>shape = [1, 3, 1, 1], data = [2, 3, 4]\<rparr> False = Inl RuntimeError"
    by (simp add: pearson_def pearson_per_channel_def)
qed

subsection \<open>Well-formed results\<close>

lemma ebind_InrD: "ebind m f = Inr r \<Longrightarrow> \<exists>x. m = Inr x \<and> f x = Inr r"
  by (cases m) simp_all

lemma tensor_ok_sub: "sub a b = Inr r \<Longrightarrow> tensor_ok r"
  and tensor_ok_mul: "mul a b = Inr r \<Longrightarrow> tensor_ok r"
  and tensor_ok_div_t: "div_t a b = Inr r \<Longrightarrow> tensor_ok r"
  by (auto simp: sub_def mul_def div_t_def dest: tensor_ok_binop)



lemma tensor_ok_sqrt_t [simp]: "tensor_ok (sqrt_t t) = tensor_ok t"
  and tensor_ok_square [simp]: "tensor_ok (square t) = tensor_ok t"
  and tensor_ok_pow2 [simp]: "tensor_ok (pow2 t) = tensor_ok t"
  by (simp_all add: sqrt_t_def square_def pow2_def)

lemma tensor_ok_apply_weights:
  "tensor_ok x \<Longrightarrow> apply_weights x lw = Inr r \<Longrightarrow> tensor_ok r"
  by (auto simp: apply_weights_def split: option.splits dest: tensor_ok_mul)


lemma tensor_ok_scalar [simp]: "tensor_ok (scalar x)"
  by (simp add: tensor_ok_def scalar_def)

lemma tensor_ok_mean_all [simp]: "tensor_ok (mean_all t)"
  and tensor_ok_sum_all [simp]: "tensor_ok (sum_all t)"
  by (simp_all add: mean_all_def sum_all_def)

subsection \<open>The aggregate score as the mean of the per-channel scores\<close>

lemma mean_all_ok: "tensor_ok pc \<Longrightarrow> mean_all pc = scalar (mean_list (data pc))"
  by (simp add: mean_all_def mean_list_def numel_def tensor_ok_def)

lemma return_scores_data:
  assumes "tensor_ok pc" "return_scores False pc (scalar x) = Inr r"
  shows "data r = data pc @ [x]"
proof (cases "shape pc = [0]")
  case True
  with assms(1) have "data pc = []" by (simp add: tensor_ok_def)
  with assms(2) True show ?thesis
    by (auto simp: return_scores_def cat_def unsqueeze0_def scalar_def split: if_splits)
next
  case False
  with assms(2) show ?thesis
    by (auto simp: return_scores_def cat_def unsqueeze0_def scalar_def Let_def split: if_splits)
qed

lemma mean_contractI:
  assumes "\<And>r. full = Inr r \<Longrightarrow>
    data r \<noteq> [] \<and> last (data r) = mean_list (butlast (data r)) \<and>
    aggregate = Inr (scalar (mean_list (butlast (data r))))"
  shows "mean_contract full aggregate"
  using assms by (cases full) (simp_all add: mean_contract_def)








lemma shape_reduce_dims:
  "shape (reduce_dims avg t ds False) = pick (map Not (reduce_mask t ds)) (shape t)"
  by (simp add: reduce_dims_def Let_def)

lemma reduce_mask_shape: "shape a = shape b \<Longrightarrow> reduce_mask a ds = reduce_mask b ds"
  by (simp add: reduce_mask_def)



subsection \<open>The aggregate score of \<open>mse\<close> and of \<open>mean_bias\<close> in exact arithmetic\<close>

text \<open>
  Over the real numbers the mean over all axes is the mean of the per-channel means, so
  that \<open>mse\<close> and \<open>mean_bias\<close> satisfy the contract of the mean in the arithmetic
  of this theory. The closed forms of \<open>mse\<close> below use this.
\<close>

lemma sum_list_map_upt: "sum_list (map g [0..<c]) = (\<Sum>j<c. g j :: real)"
  by (simp add: interv_sum_list_conv_sum_set_nat atLeast0LessThan)

lemma mean_of_channel_means:
  "(\<Sum>a<n. \<Sum>j<c. \<Sum>b<h. \<Sum>d<w. g a j b d :: real) / real (n * c * h * w)
     = (\<Sum>j<c. (\<Sum>a<n. \<Sum>b<h. \<Sum>d<w. g a j b d) / real (n * h * w)) / real c"
proof -
  have "(\<Sum>a<n. \<Sum>j<c. \<Sum>b<h. \<Sum>d<w. g a j b d) = (\<Sum>j<c. \<Sum>a<n. \<Sum>b<h. \<Sum>d<w. g a j b d)"
    by (rule sum.swap)
  then show ?thesis
    by (simp add: sum_divide_distrib [symmetric] mult_ac)
qed

lemma pick_all_True:
  "length m = length xs \<Longrightarrow> \<forall>b\<in>set m. b \<Longrightarrow> pick m xs = xs"
  by (induction m xs rule: list_induct2) auto

lemma shape_reduce_dims_023:
  assumes "shape t = a # b # c # d # rest"
  shows "shape (reduce_dims avg t [0, 2, 3] False) = b # rest"
proof -
  have "pick (map Not (map (\<lambda>p. Suc (Suc (Suc (Suc p))) \<in> set [0, 2, 3]) [0..<length rest])) rest = rest"
    by (rule pick_all_True) auto
  then show ?thesis
    using assms by (simp add: shape_reduce_dims reduce_mask_def map_upt_Suc comp_def del: upt_Suc)
qed

lemma wrap_dims_023: "wrap_dims r [0, 2, 3] = Inr ds \<Longrightarrow> 4 \<le> r \<and> ds = [0, 2, 3]"
  by (auto simp: wrap_dim_def Let_def split: if_splits dest!: ebind_InrD)

lemma cat_rank_1:
  assumes "return_scores False pc (scalar x) = Inr r"
  shows "length (shape pc) = 1"
  using assms
  by (cases "shape pc")
    (auto simp: return_scores_def cat_def Let_def unsqueeze0_def scalar_def
      split: if_splits list.splits)

lemma tensor_ok_mse_error:
  assumes "mse_error pred target lw = Inr err"
  shows "tensor_ok err"
proof -
  from assms obtain d lw' where d: "sub pred target = Inr d"
    and err: "apply_weights (square d) lw' = Inr err"
    by (auto simp: mse_error_def dest!: ebind_InrD)
  have "tensor_ok (square d)"
    using tensor_ok_sub [OF d] by simp
  then show ?thesis
    using err by (rule tensor_ok_apply_weights)
qed

lemma reduce_dims_023_ok:
  assumes "tensor_ok t" "shape t = [a, b, c, d]"
  shows "reduce_dims avg t [0, 2, 3] False =
     mk [b] (\<lambda>j. let s = (\<Sum>x<a. \<Sum>y<c. \<Sum>z<d. elem t [x, hd j, y, z])
                 in if avg then s / real (a * c * d) else s)"
proof -
  have "mk [a, b, c, d] (elem t) = t"
    using mk_elem [OF assms(1)] assms(2) by simp
  then show ?thesis
    using reduce_dims_023 [of avg a b c d "elem t"] by simp
qed

lemma mean_all_4:
  assumes "tensor_ok t" "shape t = [a, b, c, d]"
  shows "mean_all t
      = scalar ((\<Sum>x<a. \<Sum>j<b. \<Sum>y<c. \<Sum>z<d. elem t [x, j, y, z]) / real (a * b * c * d))"
proof -
  have "mk [a, b, c, d] (elem t) = t"
    using mk_elem [OF assms(1)] assms(2) by simp
  moreover have "mean_all (mk [a, b, c, d] (elem t))
      = scalar ((\<Sum>x<a. \<Sum>j<b. \<Sum>y<c. \<Sum>z<d. elem t [x, j, y, z]) / real (a * b * c * d))"
    by (simp only: mean_all_mk sum_list_indices_4 prod_list.Cons prod_list.Nil mult_1_right mult.assoc)
  ultimately show ?thesis by simp
qed

lemma mse_mean_contract:
  "mean_contract (mse pred target False lw) (mse pred target True lw)"
proof (rule mean_contractI)
  fix r
  assume "mse pred target False lw = Inr r"
  then obtain err pc where err: "mse_error pred target lw = Inr err"
    and pc: "mean_dims err [0, 2, 3] False = Inr pc"
    and r: "return_scores False pc (mean_all err) = Inr r"
    by (auto simp: mse_def dest!: ebind_InrD)
  have ok: "tensor_ok err" using err by (rule tensor_ok_mse_error)
  from pc have rank: "4 \<le> length (shape err)" and pc': "pc = reduce_dims True err [0, 2, 3] False"
    by (auto simp: mean_dims_def wrap_dim_def Let_def split: if_splits dest!: ebind_InrD)
  from rank obtain a b c d rest where sh: "shape err = a # b # c # d # rest"
    by (auto simp: Suc_le_length_iff eval_nat_numeral)
  have "length (shape pc) = 1" using r unfolding mean_all_def by (rule cat_rank_1)
  then have "rest = []" using shape_reduce_dims_023 [OF sh, of True] pc' by simp
  with sh have sh4: "shape err = [a, b, c, d]" by simp
  have pcv: "pc = mk [b] (\<lambda>j. (\<Sum>x<a. \<Sum>y<c. \<Sum>z<d. elem err [x, hd j, y, z]) / real (a * c * d))"
    unfolding pc' by (simp add: reduce_dims_023_ok [OF ok sh4])
  have mv: "mean_all err
      = scalar ((\<Sum>x<a. \<Sum>j<b. \<Sum>y<c. \<Sum>z<d. elem err [x, j, y, z]) / real (a * b * c * d))"
    by (rule mean_all_4 [OF ok sh4])
  have okpc: "tensor_ok pc" by (simp add: pcv)
  have d: "data r = data pc @ [(\<Sum>x<a. \<Sum>j<b. \<Sum>y<c. \<Sum>z<d. elem err [x, j, y, z]) / real (a * b * c * d)]"
    using return_scores_data [OF okpc] r by (simp add: mv)
  have m: "mean_list (data pc)
      = (\<Sum>x<a. \<Sum>j<b. \<Sum>y<c. \<Sum>z<d. elem err [x, j, y, z]) / real (a * b * c * d)"
    unfolding mean_of_channel_means
    by (simp add: pcv data_mk_1 mean_list_def sum_list_map_upt)
  show "data r \<noteq> [] \<and> last (data r) = mean_list (butlast (data r)) \<and>
      mse pred target True lw = Inr (scalar (mean_list (butlast (data r))))"
    by (simp add: d m mse_def err pc return_scores_def mv)
qed

lemma sub_scalars: "sub (scalar x) (scalar y) = Inr (scalar (x - y))"
  by (simp add: sub_def binop_def broadcast_shapes_def scalar_def mk_def elem_def bidx_def)

lemma sub_mk_same: "sub (mk sh f) (mk sh g) = Inr (mk sh (\<lambda>i. f i - g i))"
  by (simp add: sub_def binop_mk_same)

lemma mean_dims_023:
  assumes "tensor_ok t" "shape t = [a, b, c, d]"
  shows "mean_dims t [0, 2, 3] False =
     Inr (mk [b] (\<lambda>j. (\<Sum>x<a. \<Sum>y<c. \<Sum>z<d. elem t [x, hd j, y, z]) / real (a * c * d)))"
  using assms reduce_dims_023_ok [OF assms, of True]
  by (simp add: mean_dims_def wrap_dim_nonneg)

lemma mean_bias_mean_contract:
  assumes "tensor_ok pred" "tensor_ok target"
    and "shape pred = [n, c, h, w]" "shape target = [n, c, h, w]"
  shows "mean_contract (mean_bias pred target False) (mean_bias pred target True)"
proof -
  define T where "T = (\<lambda>j. (\<Sum>x<n. \<Sum>y<h. \<Sum>z<w. elem target [x, j, y, z]) / real (n * h * w))"
  define P where "P = (\<lambda>j. (\<Sum>x<n. \<Sum>y<h. \<Sum>z<w. elem pred [x, j, y, z]) / real (n * h * w))"
  define pc where "pc = mk [c] (\<lambda>j. T (hd j) - P (hd j))"
  define agg where "agg = (\<Sum>j<c. T j) / real c - (\<Sum>j<c. P j) / real c"
  have mt: "mean_all target = scalar ((\<Sum>j<c. T j) / real c)"
    unfolding mean_all_4 [OF assms(2,4)] mean_of_channel_means T_def ..
  have mp: "mean_all pred = scalar ((\<Sum>j<c. P j) / real c)"
    unfolding mean_all_4 [OF assms(1,3)] mean_of_channel_means P_def ..
  have res: "sub (mean_all target) (mean_all pred) = Inr (scalar agg)"
    by (simp only: mt mp sub_scalars agg_def)
  have tm: "mean_dims target [0, 2, 3] False = Inr (mk [c] (\<lambda>j. T (hd j)))"
    unfolding T_def by (rule mean_dims_023 [OF assms(2,4)])
  have pm: "mean_dims pred [0, 2, 3] False = Inr (mk [c] (\<lambda>j. P (hd j)))"
    unfolding P_def by (rule mean_dims_023 [OF assms(1,3)])
  have full: "mean_bias pred target False = return_scores False pc (scalar agg)"
    by (simp add: mean_bias_def res tm pm sub_mk_same return_scores_def pc_def)
  have aggr: "mean_bias pred target True = Inr (scalar agg)"
    by (simp add: mean_bias_def res)
  have m: "mean_list (data pc) = agg"
    by (simp add: pc_def agg_def data_mk_1 mean_list_def sum_list_map_upt sum_subtractf
        diff_divide_distrib)
  show ?thesis
  proof (rule mean_contractI)
    fix r
    assume "mean_bias pred target False = Inr r"
    then have "data r = data pc @ [agg]"
      unfolding full by (intro return_scores_data) (simp_all add: pc_def)
    then show "data r \<noteq> [] \<and> last (data r) = mean_list (butlast (data r)) \<and>
        mean_bias pred target True = Inr (scalar (mean_list (butlast (data r))))"
      by (simp add: m aggr)
  qed
qed

subsection \<open>The metrics on an example\<close>

lemmas tensor_defs = sub_def mul_def div_t_def binop_def broadcast_shapes_def bidx_def bclamp_def
  mk_def elem_def square_def pow2_def sqrt_t_def map_tensor_def apply_weights_def
  mean_dims_def wrap_dim_def reduce_dims_def reduce_mask_def pick_def Let_def
  mean_all_def sum_all_def scalar_def numel_def return_scores_def cat_def unsqueeze0_def
  squeeze_def squeeze0_def select1_def stack_def sub_opt_def mul_opt_def shape_at_def
  upt_conv_Cons

lemmas ex_defs = ex_pred_def ex_target_def ex_weights_def ex_clim_def

lemma ex_mse:
  "mse ex_pred ex_target False (Some ex_weights) = Inr \<lparr>shape = [3], data = [4, 4, 4]\<rparr>"
  unfolding ex_defs
  by (simp add: mse_def mse_error_def mse_resample_def shape_at_opt_def tensor_defs)

lemma ex_rmse:
  "rmse ex_pred ex_target False (Some ex_weights) = Inr \<lparr>shape = [3], data = [2, 2, 2]\<rparr>"
  unfolding ex_defs by (simp add: rmse_def rmse_per_channel_def tensor_defs)


subsection \<open>Rounding to single precision\<close>

lemma fl32_0 [simp]: "fl32 0 = 0"
  by (simp add: fl32_def)

lemma fl32_between:
  assumes "2 powr of_int e \<le> \<bar>x\<bar>" "\<bar>x\<bar> < 2 powr (of_int e + 1)"
  shows "fl32 x = of_int (round_half_even (x / 2 powr (of_int e - 23))) * 2 powr (of_int e - 23)"
proof -
  have pos: "0 < \<bar>x\<bar>"
    using assms(1) by (smt (verit) powr_gt_zero)
  then have "\<lfloor>log 2 \<bar>x\<bar>\<rfloor> = e"
    using assms by (simp add: floor_log_eq_powr_iff)
  moreover have "x \<noteq> 0" using pos by simp
  ultimately show ?thesis by (simp add: fl32_def Let_def)
qed

lemma fl32_1 [simp]: "fl32 1 = 1"
  using fl32_between [of 0 1] by (simp add: round_half_even_def powr_minus)


lemma fl32_2 [simp]: "fl32 2 = 2"
  using fl32_between [of 1 2] by (simp add: round_half_even_def powr_minus powr_numeral)

lemma fl32_4 [simp]: "fl32 4 = 4"
  using fl32_between [of 2 4] by (simp add: round_half_even_def powr_minus powr_numeral)

lemma fl32_5 [simp]: "fl32 5 = 5"
  using fl32_between [of 2 5] by (simp add: round_half_even_def powr_minus powr_numeral)





text \<open>
  The rounding is visible in \<open>interpolate\<close>: from 26 rows to 22 rows, the output row 11
  reads the input row 12, where the exact quotient \<open>11 * 26 / 22\<close> is 13.
\<close>

lemma fl32_scale_26_22: "fl32 (26 / 22) = 9913809 / 2 ^ 23"
  using fl32_between [of 0 "26 / 22"]
  by (simp add: round_half_even_def powr_minus powr_numeral)

lemma fl32_row_11: "fl32 (11 * (9913809 / 2 ^ 23)) = 13631487 / 2 ^ 20"
  using fl32_between [of 3 "11 * (9913809 / 2 ^ 23)"]
  by (simp add: round_half_even_def powr_minus powr_numeral)

lemma nearest_idx_26_22: "nearest_idx 11 26 22 = 12"
proof -
  have "fl32 (11 * fl32 (26 / 22)) = 13631487 / 2 ^ 20"
    by (simp only: fl32_scale_26_22 fl32_row_11)
  moreover have "real 11 = 11" "real 26 = 26" "real 22 = 22"
    by simp_all
  ultimately have "fl32 (real 11 * fl32 (real 26 / real 22)) = 13631487 / 2 ^ 20"
    by (simp only:)
  then have "\<lfloor>fl32 (real 11 * fl32 (real 26 / real 22))\<rfloor> = 12"
    by (simp only:) simp
  then show ?thesis
    by (simp only: nearest_idx_def) simp
qed



subsection \<open>The aggregate score, metric by metric\<close>














subsection \<open>Closed forms of the squared-error metrics\<close>

lemma binop_mk_any:
  assumes "broadcast_shapes sh (shape b) = Some sh"
  shows "binop g (mk sh f) b = Inr (mk sh (\<lambda>i. g (f i) (elem b (bidx (shape b) i))))"
proof -
  have "mk sh (\<lambda>i. g (elem (mk sh f) (bidx sh i)) (elem b (bidx (shape b) i)))
      = mk sh (\<lambda>i. g (f i) (elem b (bidx (shape b) i)))"
    by (rule mk_cong) (simp add: bidx_same elem_mk)
  then show ?thesis using assms by (simp add: binop_def)
qed

lemma sub_fields:
  assumes "tensor_ok pred" "tensor_ok target" "shape pred = sh" "shape target = sh"
  shows "sub pred target = Inr (mk sh (\<lambda>i. elem pred i - elem target i))"
proof -
  have "sub (mk sh (elem pred)) (mk sh (elem target)) = Inr (mk sh (\<lambda>i. elem pred i - elem target i))"
    by (rule sub_mk_same)
  then show ?thesis
    using mk_elem [OF assms(1)] mk_elem [OF assms(2)] assms(3,4) by simp
qed

lemma square_mk: "square (mk sh f) = mk sh (\<lambda>i. f i * f i)"
  by (simp add: square_def map_tensor_mk)

lemma apply_weights_mk:
  assumes "weights_fit sh lw"
  shows "apply_weights (mk sh f) lw = Inr (mk sh (\<lambda>i. f i * weight_at lw i))"
proof (cases lw)
  case None
  then show ?thesis by (simp add: apply_weights_def weight_at_def)
next
  case (Some w)
  with assms have "broadcast_shapes sh (shape w) = Some sh"
    by (simp add: weights_fit_def)
  then show ?thesis
    using Some by (simp add: apply_weights_def weight_at_def mul_def binop_mk_any)
qed

lemma weighted_error:
  assumes "tensor_ok pred" "tensor_ok target" "shape pred = sh" "shape target = sh"
    and "weights_fit sh lw"
  shows "ebind (sub pred target) (\<lambda>d. apply_weights (square d) lw)
     = Inr (mk sh (sq_err pred target lw))"
  by (simp add: sub_fields [OF assms(1-4)] square_mk apply_weights_mk [OF assms(5)]
      sq_err_def [abs_def])

lemma reduce_dims_23:
  "reduce_dims avg (mk [n, c, h, w] f) [2, 3] False =
     mk [n, c] (\<lambda>j. let s = (\<Sum>y<h. \<Sum>z<w. f [hd j, hd (tl j), y, z])
                   in if avg then s / real (h * w) else s)"
  unfolding reduce_dims_mk
  apply (simp add: Let_def reduce_mask_def del: indices.simps)
  apply (rule mk_cong)
  apply (auto simp: valid_index_2 reduce_mask_def sum_list_indices_2 simp del: indices.simps)
  done

lemma reduce_dims_0_of_2:
  "reduce_dims avg (mk [n, c] f) [0] False =
     mk [c] (\<lambda>j. let s = (\<Sum>x<n. f [x, hd j]) in if avg then s / real n else s)"
  unfolding reduce_dims_mk
  apply (simp add: Let_def reduce_mask_def del: indices.simps)
  apply (rule mk_cong)
  apply (auto simp: valid_index_1 reduce_mask_def sum_list_indices_1 simp del: indices.simps)
  done

lemma return_scores_mk:
  "return_scores False (mk [c] f) (mean_all (mk [c] f))
     = Inr \<lparr>shape = [Suc c], data = score_sequence (\<lambda>j. f [j]) c\<rparr>"
  by (simp add: return_scores_def cat_def unsqueeze0_def mean_all_ok data_mk_1 scalar_def
      score_sequence_def Let_def)

lemma rmse_per_channel_closed:
  assumes "tensor_ok pred" "tensor_ok target"
    and "shape pred = [n, c, h, w]" "shape target = [n, c, h, w]"
    and "weights_fit [n, c, h, w] lw"
  shows "rmse_per_channel pred target lw
     = Inr (mk [c] (\<lambda>j. rmse_score pred target lw n h w (hd j)))"
proof -
  have "rmse_per_channel pred target lw
      = ebind (ebind (sub pred target) (\<lambda>d. apply_weights (square d) lw))
          (\<lambda>err. ebind (mean_dims err [2, 3] False) (\<lambda>m. mean_dims (sqrt_t m) [0] False))"
    by (cases "sub pred target") (simp_all add: rmse_per_channel_def)
  then show ?thesis
    by (simp add: weighted_error [OF assms] mean_dims_def wrap_dim_nonneg reduce_dims_23
        sqrt_t_def map_tensor_mk reduce_dims_0_of_2 rmse_score_def [abs_def])
qed

lemma mean_list_map_upt: "mean_list (map g [0..<c]) = (\<Sum>j<c. g j) / real c"
  by (simp add: mean_list_def sum_list_map_upt)

lemma rmse_closed:
  assumes "tensor_ok pred" "tensor_ok target"
    and "shape pred = [n, c, h, w]" "shape target = [n, c, h, w]"
    and "weights_fit [n, c, h, w] lw"
  shows "rmse pred target False lw
     = Inr \<lparr>shape = [Suc c], data = score_sequence (rmse_score pred target lw n h w) c\<rparr>"
  by (simp add: rmse_def rmse_per_channel_closed [OF assms] return_scores_mk)

lemma mse_resample_same:
  assumes "shape_at wt 2 = Inr h" "shape_at err 2 = Inr h"
  shows "mse_resample err (Some wt) = Inr (Some wt)"
  using assms by (simp add: mse_resample_def shape_at_opt_def)

lemma mse_error_closed:
  assumes "tensor_ok pred" "tensor_ok target"
    and "shape pred = [n, c, h, w]" "shape target = [n, c, h, w]"
    and "weights_fit [n, c, h, w] (Some wt)" "shape_at wt 2 = Inr h"
  shows "mse_error pred target (Some wt) = Inr (mk [n, c, h, w] (sq_err pred target (Some wt)))"
proof -
  have r: "mse_resample (mk [n, c, h, w] f) (Some wt) = Inr (Some wt)" for f
    by (rule mse_resample_same [OF assms(6)]) (simp add: shape_at_def)
  show ?thesis
    using weighted_error [OF assms(1-5)]
    by (simp add: mse_error_def sub_fields [OF assms(1-4)] square_mk r)
qed

lemma mse_closed:
  assumes "tensor_ok pred" "tensor_ok target"
    and "shape pred = [n, c, h, w]" "shape target = [n, c, h, w]"
    and "weights_fit [n, c, h, w] (Some wt)" "shape_at wt 2 = Inr h"
  shows "mse pred target False (Some wt)
     = Inr \<lparr>shape = [Suc c], data = score_sequence (mse_score pred target (Some wt) n h w) c\<rparr>"
proof -
  let ?E = "mk [n, c, h, w] (sq_err pred target (Some wt))"
  let ?f = "\<lambda>j. mse_score pred target (Some wt) n h w (hd j)"
  have pc: "mean_dims ?E [0, 2, 3] False = Inr (mk [c] ?f)"
    by (simp add: mean_dims_def wrap_dim_nonneg reduce_dims_023 mse_score_def [abs_def])
  have "mean_all ?E
      = scalar ((\<Sum>x<n. \<Sum>j<c. \<Sum>y<h. \<Sum>z<w. sq_err pred target (Some wt) [x, j, y, z])
          / real (n * c * h * w))"
    by (simp only: mean_all_mk sum_list_indices_4 prod_list.Cons prod_list.Nil mult_1_right
        mult.assoc)
  also have "\<dots> = scalar (mean_list (map (\<lambda>j. mse_score pred target (Some wt) n h w j) [0..<c]))"
    by (simp only: mean_of_channel_means mean_list_map_upt mse_score_def)
  also have "\<dots> = mean_all (mk [c] ?f)"
    by (simp add: mean_all_ok data_mk_1)
  finally have m: "mean_all ?E = mean_all (mk [c] ?f)" .
  show ?thesis
    by (simp only: mse_def mse_error_closed [OF assms] ebind_simps pc m return_scores_mk list.sel)
qed

lemma score_sequence_nth: "j < c \<Longrightarrow> score_sequence f c ! j = f j"
  by (simp add: score_sequence_def nth_append)

lemma rmse_score_single:
  "rmse_score pred target lw (Suc 0) h w j = sqrt (mse_score pred target lw (Suc 0) h w j)"
  by (simp add: rmse_score_def mse_score_def)

lemma two_rmse:
  "rmse two_pred two_target False (Some ex_weights) = Inr \<lparr>shape = [2], data = [1, 1]\<rparr>"
  unfolding two_pred_def two_target_def ex_defs
  by (simp add: rmse_def rmse_per_channel_def tensor_defs)

lemma two_mse:
  "mse two_pred two_target False (Some ex_weights) = Inr \<lparr>shape = [2], data = [2, 2]\<rparr>"
  unfolding two_pred_def two_target_def ex_defs
  by (simp add: mse_def mse_error_def mse_resample_def shape_at_opt_def tensor_defs)

text \<open>
  Claim C5. For fields of shape \<open>[n, c, h, w]\<close> and latitude weights that broadcast to
  that shape (or none), the score of \<open>rmse\<close> for the channel \<open>j\<close> is a mean of square
  roots: the weighted squared error is averaged over the two spatial axes for each sample,
  the square root is taken for each sample, and the roots are averaged over the batch axis.
\<close>

theorem rmse_is_mean_of_square_roots:
  assumes "tensor_ok pred" "tensor_ok target"
    and "shape pred = [n, c, h, w]" "shape target = [n, c, h, w]"
    and "weights_fit [n, c, h, w] lat_weights"
  shows "rmse pred target False lat_weights
     = Inr \<lparr>shape = [Suc c],
            data = score_sequence
              (\<lambda>j. (\<Sum>x<n. sqrt ((\<Sum>y<h. \<Sum>z<w. sq_err pred target lat_weights [x, j, y, z])
                               / real (h * w))) / real n) c\<rparr>"
  using rmse_closed [OF assms] by (simp add: rmse_score_def [abs_def])

theorem rmse_is_mean_of_square_roots_witness:
  "tensor_ok two_pred \<and> tensor_ok two_target \<and>
   shape two_pred = [2, 1, 1, 1] \<and> shape two_target = [2, 1, 1, 1] \<and>
   weights_fit [2, 1, 1, 1] (Some ex_weights) \<and>
   rmse two_pred two_target False (Some ex_weights) = Inr \<lparr>shape = [2], data = [1, 1]\<rparr> \<and>
   score_sequence
     (\<lambda>j. (\<Sum>x<2. sqrt ((\<Sum>y<1. \<Sum>z<1. sq_err two_pred two_target (Some ex_weights) [x, j, y, z])
                      / real (1 * 1))) / real 2) 1 = [1, 1]"
proof -
  have h: "tensor_ok two_pred" "tensor_ok two_target"
    "shape two_pred = [2, 1, 1, 1]" "shape two_target = [2, 1, 1, 1]"
    "weights_fit [2, 1, 1, 1] (Some ex_weights)"
    by (simp_all add: two_pred_def two_target_def ex_defs tensor_ok_def weights_fit_def
        broadcast_shapes_def)
  show ?thesis
    using rmse_is_mean_of_square_roots [OF h] h two_rmse by simp
qed

text \<open>
  Claim C6. For a batch of one sample, and latitude weights whose latitude extent is that
  of the fields, each per-channel score of \<open>rmse\<close> is the square root of the per-channel
  score of \<open>mse\<close>. For a batch of two samples the equality fails: with squared errors 0
  and 4 the score of \<open>rmse\<close> is 1 and that of \<open>mse\<close> is 2.
\<close>

theorem rmse_is_sqrt_mse_for_one_sample:
  assumes "tensor_ok pred" "tensor_ok target"
    and "shape pred = [1, c, h, w]" "shape target = [1, c, h, w]"
    and "weights_fit [1, c, h, w] (Some wt)" "shape_at wt 2 = Inr h"
  shows "(\<exists>rs ms. rmse pred target False (Some wt) = Inr rs \<and>
            mse pred target False (Some wt) = Inr ms \<and>
            (\<forall>j<c. data rs ! j = sqrt (data ms ! j))) \<and>
         (\<exists>rs ms. shape two_pred = [2, 1, 1, 1] \<and> shape two_target = [2, 1, 1, 1] \<and>
            rmse two_pred two_target False (Some ex_weights) = Inr rs \<and>
            mse two_pred two_target False (Some ex_weights) = Inr ms \<and>
            data rs ! 0 \<noteq> sqrt (data ms ! 0))"
proof
  show "\<exists>rs ms. rmse pred target False (Some wt) = Inr rs \<and>
            mse pred target False (Some wt) = Inr ms \<and>
            (\<forall>j<c. data rs ! j = sqrt (data ms ! j))"
    by (simp add: rmse_closed [OF assms(1-5)] mse_closed [OF assms] score_sequence_nth
        rmse_score_single)
  have "sqrt 2 \<noteq> 1"
    by (simp add: real_sqrt_eq_1_iff)
  then show "\<exists>rs ms. shape two_pred = [2, 1, 1, 1] \<and> shape two_target = [2, 1, 1, 1] \<and>
            rmse two_pred two_target False (Some ex_weights) = Inr rs \<and>
            mse two_pred two_target False (Some ex_weights) = Inr ms \<and>
            data rs ! 0 \<noteq> sqrt (data ms ! 0)"
    by (simp add: two_rmse two_mse) (simp add: two_pred_def two_target_def)
qed

theorem rmse_is_sqrt_mse_for_one_sample_witness:
  "tensor_ok ex_pred \<and> tensor_ok ex_target \<and>
   shape ex_pred = [1, 2, 1, 2] \<and> shape ex_target = [1, 2, 1, 2] \<and>
   weights_fit [1, 2, 1, 2] (Some ex_weights) \<and> shape_at ex_weights 2 = Inr 1 \<and>
   rmse ex_pred ex_target False (Some ex_weights) = Inr \<lparr>shape = [3], data = [2, 2, 2]\<rparr> \<and>
   mse ex_pred ex_target False (Some ex_weights) = Inr \<lparr>shape = [3], data = [4, 4, 4]\<rparr> \<and>
   (2::real) = sqrt 4"
proof -
  have h: "tensor_ok ex_pred" "tensor_ok ex_target"
    "shape ex_pred = [1, 2, 1, 2]" "shape ex_target = [1, 2, 1, 2]"
    "weights_fit [1, 2, 1, 2] (Some ex_weights)" "shape_at ex_weights 2 = Inr 1"
    by (simp_all add: ex_defs tensor_ok_def weights_fit_def broadcast_shapes_def shape_at_def)
  from rmse_is_sqrt_mse_for_one_sample [OF h]
  have "\<forall>j<2. [2, 2, 2 :: real] ! j = sqrt ([4, 4, 4] ! j)"
    by (simp add: ex_rmse ex_mse)
  then have "(2::real) = sqrt 4"
    by (auto dest: spec [of _ 0])
  then show ?thesis
    using h by (simp add: ex_rmse ex_mse)
qed

subsection \<open>Closed form of \<open>nrmseg\<close>\<close>

lemma apply_weights_field:
  assumes "tensor_ok t" "shape t = sh" "weights_fit sh lw"
  shows "apply_weights t lw = Inr (mk sh (\<lambda>i. elem t i * weight_at lw i))"
  using apply_weights_mk [OF assms(3), of "elem t"] mk_elem [OF assms(1)] assms(2) by simp

lemma pow2_mk: "pow2 (mk sh f) = mk sh (\<lambda>i. (f i)\<^sup>2)"
  by (simp add: pow2_def map_tensor_mk)

lemma sqrt_t_mk: "sqrt_t (mk sh f) = mk sh (\<lambda>i. sqrt (f i))"
  by (simp add: sqrt_t_def map_tensor_mk)

lemma wrap_dims_last_two: "wrap_dims (Suc (Suc (Suc (Suc 0)))) [- 2, - 1] = Inr [2, 3]"
  by (simp add: wrap_dim_def)

lemma mean_dims_last_two:
  "mean_dims (mk [n, c, h, w] f) [- 2, - 1] False
     = Inr (mk [n, c] (\<lambda>j. (\<Sum>y<h. \<Sum>z<w. f [hd j, hd (tl j), y, z]) / real (h * w)))"
  by (simp add: mean_dims_def reduce_dims_23 wrap_dims_last_two del: wrap_dims.simps)

lemma mean_dims_first_of_2:
  "mean_dims (mk [n, c] f) [0] False = Inr (mk [c] (\<lambda>j. (\<Sum>x<n. f [x, hd j]) / real n))"
  by (simp add: mean_dims_def wrap_dim_nonneg reduce_dims_0_of_2)

lemma div_by_clim:
  assumes "clim_fit c clim"
  shows "div_t (mk [c] f) (squeeze clim) = Inr (mk [c] (\<lambda>j. f [hd j] / clim_at clim (hd j)))"
proof -
  from assms have b: "broadcast_shapes [c] (shape (squeeze clim)) = Some [c]"
    by (simp add: clim_fit_def)
  have "mk [c] (\<lambda>i. f i / elem (squeeze clim) (bidx (shape (squeeze clim)) i))
      = mk [c] (\<lambda>j. f [hd j] / clim_at clim (hd j))"
    by (rule mk_cong) (auto simp: valid_index_1 clim_at_def)
  then show ?thesis
    by (simp add: div_t_def binop_mk_any [OF b])
qed

lemma nrmseg_per_channel_closed:
  assumes "tensor_ok pred" "tensor_ok target"
    and "shape pred = [n, c, h, w]" "shape target = [n, c, h, w]"
    and "weights_fit [n, c, h, w] lw" "clim_fit c clim"
  shows "nrmseg_per_channel pred target clim lw
     = Inr (mk [c] (\<lambda>j. sqrt ((\<Sum>x<n. (weighted_mean_hw pred lw h w x (hd j)
                                        - weighted_mean_hw target lw h w x (hd j))\<^sup>2) / real n)
                         / clim_at clim (hd j)))"
  by (simp add: nrmseg_per_channel_def apply_weights_field [OF assms(1,3,5)]
      apply_weights_field [OF assms(2,4,5)] mean_dims_last_two sub_mk_same pow2_mk
      mean_dims_first_of_2 sqrt_t_mk div_by_clim [OF assms(6)] weighted_mean_hw_def)

text \<open>
  Claim C9. The score of \<open>nrmseg\<close> for the channel \<open>j\<close>: \<open>pred\<close> and \<open>target\<close> are
  each multiplied by the latitude weights (when supplied), each sample is averaged over
  the two spatial axes, the two averages are subtracted and the difference squared, the
  squares are averaged over the batch axis, the square root is taken, and the root is
  divided by the climatology value of the channel.
\<close>

theorem nrmseg_order_of_reductions:
  assumes "tensor_ok pred" "tensor_ok target"
    and "shape pred = [n, c, h, w]" "shape target = [n, c, h, w]"
    and "weights_fit [n, c, h, w] lat_weights" "clim_fit c clim"
  shows "nrmseg pred target clim False lat_weights
     = Inr \<lparr>shape = [Suc c],
            data = score_sequence
              (\<lambda>j. sqrt ((\<Sum>x<n.
                      ((\<Sum>y<h. \<Sum>z<w. elem pred [x, j, y, z] * weight_at lat_weights [x, j, y, z])
                         / real (h * w)
                       - (\<Sum>y<h. \<Sum>z<w. elem target [x, j, y, z] * weight_at lat_weights [x, j, y, z])
                         / real (h * w))\<^sup>2) / real n)
                   / clim_at clim j) c\<rparr>"
  using nrmseg_per_channel_closed [OF assms]
  by (simp add: nrmseg_def return_scores_mk weighted_mean_hw_def)

lemma ex_nrmseg_field:
  "nrmseg ex_field ex_pred ex_clim False (Some ex_weights)
     = Inr \<lparr>shape = [3], data = [1, 1, 1]\<rparr>"
  unfolding ex_defs ex_field_def by (simp add: nrmseg_def nrmseg_per_channel_def tensor_defs)

theorem nrmseg_order_of_reductions_witness:
  "tensor_ok ex_field \<and> tensor_ok ex_pred \<and>
   shape ex_field = [1, 2, 1, 2] \<and> shape ex_pred = [1, 2, 1, 2] \<and>
   weights_fit [1, 2, 1, 2] (Some ex_weights) \<and> clim_fit 2 ex_clim \<and>
   nrmseg ex_field ex_pred ex_clim False (Some ex_weights)
     = Inr \<lparr>shape = [3], data = [1, 1, 1]\<rparr> \<and>
   score_sequence
     (\<lambda>j. sqrt ((\<Sum>x<1.
             ((\<Sum>y<1. \<Sum>z<2. elem ex_field [x, j, y, z] * weight_at (Some ex_weights) [x, j, y, z])
                / real (1 * 2)
              - (\<Sum>y<1. \<Sum>z<2. elem ex_pred [x, j, y, z] * weight_at (Some ex_weights) [x, j, y, z])
                / real (1 * 2))\<^sup>2) / real 1)
          / clim_at ex_clim j) 2 = [1, 1, 1]"
proof -
  have h: "tensor_ok ex_field" "tensor_ok ex_pred"
    "shape ex_field = [1, 2, 1, 2]" "shape ex_pred = [1, 2, 1, 2]"
    "weights_fit [1, 2, 1, 2] (Some ex_weights)" "clim_fit 2 ex_clim"
    by (simp_all add: ex_defs ex_field_def tensor_ok_def weights_fit_def clim_fit_def
        squeeze_def broadcast_shapes_def)
  show ?thesis
    using nrmseg_order_of_reductions [OF h] h ex_nrmseg_field by simp
qed

subsection \<open>Uniform latitude weights\<close>

lemma uni_rmse_weighted:
  "rmse uni_pred uni_target False (Some uni_weights) = Inr \<lparr>shape = [2], data = [1, 1]\<rparr>"
  unfolding uni_pred_def uni_target_def uni_weights_def
  by (simp add: rmse_def rmse_per_channel_def tensor_defs)

lemma uni_rmse_unweighted:
  "rmse uni_pred uni_target False None = Inr \<lparr>shape = [2], data = [2, 2]\<rparr>"
  unfolding uni_pred_def uni_target_def uni_weights_def
  by (simp add: rmse_def rmse_per_channel_def tensor_defs)

lemma uni_mse_weighted:
  "mse uni_pred uni_target False (Some uni_weights) = Inr \<lparr>shape = [2], data = [1, 1]\<rparr>"
  unfolding uni_pred_def uni_target_def uni_weights_def
  by (simp add: mse_def mse_error_def mse_resample_def shape_at_opt_def tensor_defs)

lemma apply_weights_ones:
  assumes "broadcast_shapes sh s2 = Some sh"
  shows "apply_weights (mk sh f) (Some (ones s2)) = Inr (mk sh f)"
  using binop_mk_left [OF assms, of "(*)" f "\<lambda>i. 1"]
  by (simp add: apply_weights_def mul_def ones_def)

lemma apply_weights_None [simp]: "apply_weights t None = Inr t"
  by (simp add: apply_weights_def)

lemma broadcast_lat_4 [simp]:
  "broadcast_shapes [n, c, h, w] [Suc 0, Suc 0, h, Suc 0] = Some [n, c, h, w]"
  by (simp add: broadcast_shapes_def)

lemma broadcast_lat_3 [simp]:
  "broadcast_shapes [c, h, w] [Suc 0, h, Suc 0] = Some [c, h, w]"
  by (simp add: broadcast_shapes_def)

lemma mk_const: "mk sh (\<lambda>i. x) = \<lparr>shape = sh, data = replicate (prod_list sh) x\<rparr>"
  by (simp add: mk_def map_replicate_const)

lemma squeeze0_ones: "squeeze0 (ones [Suc 0, Suc 0, h, Suc 0]) = ones [Suc 0, h, Suc 0]"
  by (simp add: squeeze0_def ones_def mk_const)

lemma rmse_per_channel_ones:
  assumes "tensor_ok pred" "tensor_ok target"
    and "shape pred = [n, c, h, w]" "shape target = [n, c, h, w]"
  shows "rmse_per_channel pred target (Some (ones [1, 1, h, 1]))
     = rmse_per_channel pred target None"
  by (simp add: rmse_per_channel_def sub_fields [OF assms] square_mk apply_weights_ones)

lemma nrmseg_per_channel_ones:
  assumes "tensor_ok pred" "tensor_ok target"
    and "shape pred = [n, c, h, w]" "shape target = [n, c, h, w]"
  shows "nrmseg_per_channel pred target clim (Some (ones [1, 1, h, 1]))
     = nrmseg_per_channel pred target clim None"
proof -
  have "apply_weights (mk [n, c, h, w] (elem pred)) (Some (ones [1, 1, h, 1]))
      = Inr (mk [n, c, h, w] (elem pred))"
    "apply_weights (mk [n, c, h, w] (elem target)) (Some (ones [1, 1, h, 1]))
      = Inr (mk [n, c, h, w] (elem target))"
    by (simp_all add: apply_weights_ones)
  then have "apply_weights pred (Some (ones [1, 1, h, 1])) = Inr pred"
    "apply_weights target (Some (ones [1, 1, h, 1])) = Inr target"
    using mk_elem [OF assms(1)] mk_elem [OF assms(2)] assms(3,4) by simp_all
  then show ?thesis
    by (simp add: nrmseg_per_channel_def)
qed

lemma mean_dims_first_of_4:
  assumes "shape t = [n, c, h, w]"
  shows "\<exists>g. mean_dims t [0] False = Inr (mk [c, h, w] g)"
  using assms
  by (simp add: mean_dims_def wrap_dim_nonneg reduce_dims_def reduce_mask_def Let_def
      upt_conv_Cons) (rule exI, rule refl)

lemma nrmses_per_channel_ones:
  assumes "shape pred = [n, c, h, w]" "shape target = [n, c, h, w]"
  shows "nrmses_per_channel pred target clim (Some (ones [1, 1, h, 1]))
     = nrmses_per_channel pred target clim None"
proof -
  obtain g1 where p: "mean_dims pred [0] False = Inr (mk [c, h, w] g1)"
    using mean_dims_first_of_4 [OF assms(1)] by auto
  obtain g2 where t: "mean_dims target [0] False = Inr (mk [c, h, w] g2)"
    using mean_dims_first_of_4 [OF assms(2)] by auto
  show ?thesis
    by (simp add: nrmses_per_channel_def p t sub_mk_same pow2_mk squeeze0_ones apply_weights_ones)
qed

lemma mse_of_error:
  assumes "mse_error pred target lw = Inr (mk [n, c, h, w] e)"
  shows "mse pred target False lw
     = Inr \<lparr>shape = [Suc c],
            data = score_sequence (\<lambda>j. (\<Sum>x<n. \<Sum>y<h. \<Sum>z<w. e [x, j, y, z]) / real (n * h * w)) c\<rparr>"
proof -
  let ?E = "mk [n, c, h, w] e"
  let ?f = "\<lambda>j. (\<Sum>x<n. \<Sum>y<h. \<Sum>z<w. e [x, hd j, y, z]) / real (n * h * w)"
  have pc: "mean_dims ?E [0, 2, 3] False = Inr (mk [c] ?f)"
    by (simp add: mean_dims_def wrap_dim_nonneg reduce_dims_023)
  have "mean_all ?E = scalar ((\<Sum>x<n. \<Sum>j<c. \<Sum>y<h. \<Sum>z<w. e [x, j, y, z]) / real (n * c * h * w))"
    by (simp only: mean_all_mk sum_list_indices_4 prod_list.Cons prod_list.Nil mult_1_right
        mult.assoc)
  also have "\<dots> = scalar (mean_list (map (\<lambda>j. (\<Sum>x<n. \<Sum>y<h. \<Sum>z<w. e [x, j, y, z]) / real (n * h * w)) [0..<c]))"
    by (simp only: mean_of_channel_means mean_list_map_upt)
  also have "\<dots> = mean_all (mk [c] ?f)"
    by (simp add: mean_all_ok data_mk_1)
  finally have m: "mean_all ?E = mean_all (mk [c] ?f)" .
  show ?thesis
    by (simp only: mse_def assms ebind_simps pc m return_scores_mk list.sel)
qed

lemma mse_error_ones:
  assumes "tensor_ok pred" "tensor_ok target"
    and "shape pred = [n, c, h, w]" "shape target = [n, c, h, w]"
  shows "mse_error pred target (Some (ones [1, 1, h, 1]))
     = Inr (mk [n, c, h, w] (sq_err pred target None))"
proof -
  have r: "mse_resample (mk [n, c, h, w] f) (Some (ones [Suc 0, Suc 0, h, Suc 0]))
      = Inr (Some (ones [Suc 0, Suc 0, h, Suc 0]))" for f
    by (rule mse_resample_same [where h = h]) (simp_all add: shape_at_def ones_def)
  show ?thesis
    by (simp add: mse_error_def sub_fields [OF assms] square_mk r apply_weights_ones
        sq_err_def [abs_def] weight_at_def)
qed

text \<open>
  Claim C7. The claim: uniform latitude weights with every entry equal to \<open>1 / H\<close> give
  the result of the unweighted computation. The metrics multiply by the weights and take
  the plain mean, which does not divide by the sum of the weights: with \<open>H = 4\<close> and a
  squared error of 4 everywhere, \<open>rmse\<close> gives 1 with the weights \<open>1 / 4\<close> and 2 without
  weights.
\<close>

theorem uniform_weights_counterexample:
  "shape uni_weights = [1, 1, 4, 1] \<and> set (data uni_weights) = {1 / 4} \<and>
   rmse uni_pred uni_target False (Some uni_weights) = Inr \<lparr>shape = [2], data = [1, 1]\<rparr> \<and>
   rmse uni_pred uni_target False None = Inr \<lparr>shape = [2], data = [2, 2]\<rparr> \<and>
   rmse uni_pred uni_target False (Some uni_weights) \<noteq> rmse uni_pred uni_target False None"
  by (simp add: uni_rmse_weighted uni_rmse_unweighted) (simp add: uni_weights_def)

text \<open>
  Claim C7, amended. For fields of one shape \<open>[n, c, h, w]\<close>, uniform latitude
  weights of shape \<open>[1, 1, h, 1]\<close> with every entry equal to 1 give the result of the
  unweighted computation: for \<open>rmse\<close>, \<open>nrmses\<close> and \<open>nrmseg\<close> the result of the
  call without weights, for \<open>mse\<close> the unweighted mean squared error per channel,
  followed by the mean of these.
\<close>

theorem unit_weights_are_neutral:
  assumes "tensor_ok pred" "tensor_ok target"
    and "shape pred = [n, c, h, w]" "shape target = [n, c, h, w]"
  shows "rmse pred target aggregate_only (Some (ones [1, 1, h, 1]))
       = rmse pred target aggregate_only None \<and>
     nrmses pred target clim aggregate_only (Some (ones [1, 1, h, 1]))
       = nrmses pred target clim aggregate_only None \<and>
     nrmseg pred target clim aggregate_only (Some (ones [1, 1, h, 1]))
       = nrmseg pred target clim aggregate_only None \<and>
     mse pred target False (Some (ones [1, 1, h, 1]))
       = Inr \<lparr>shape = [Suc c],
              data = score_sequence
                (\<lambda>j. (\<Sum>x<n. \<Sum>y<h. \<Sum>z<w. (elem pred [x, j, y, z] - elem target [x, j, y, z])\<^sup>2)
                      / real (n * h * w)) c\<rparr>"
proof (intro conjI)
  show "rmse pred target aggregate_only (Some (ones [1, 1, h, 1]))
       = rmse pred target aggregate_only None"
    by (simp only: rmse_def rmse_per_channel_ones [OF assms])
  show "nrmses pred target clim aggregate_only (Some (ones [1, 1, h, 1]))
       = nrmses pred target clim aggregate_only None"
    by (simp only: nrmses_def nrmses_per_channel_ones [OF assms(3,4)])
  show "nrmseg pred target clim aggregate_only (Some (ones [1, 1, h, 1]))
       = nrmseg pred target clim aggregate_only None"
    by (simp only: nrmseg_def nrmseg_per_channel_ones [OF assms])
  show "mse pred target False (Some (ones [1, 1, h, 1]))
       = Inr \<lparr>shape = [Suc c],
              data = score_sequence
                (\<lambda>j. (\<Sum>x<n. \<Sum>y<h. \<Sum>z<w. (elem pred [x, j, y, z] - elem target [x, j, y, z])\<^sup>2)
                      / real (n * h * w)) c\<rparr>"
    using mse_of_error [OF mse_error_ones [OF assms]]
    by (simp add: sq_err_def weight_at_def power2_eq_square)
qed

theorem unit_weights_are_neutral_witness:
  "tensor_ok uni_pred \<and> tensor_ok uni_target \<and>
   shape uni_pred = [1, 1, 4, 1] \<and> shape uni_target = [1, 1, 4, 1] \<and>
   rmse uni_pred uni_target False (Some (ones [1, 1, 4, 1]))
     = Inr \<lparr>shape = [2], data = [2, 2]\<rparr>"
proof -
  have h: "tensor_ok uni_pred" "tensor_ok uni_target"
    "shape uni_pred = [1, 1, 4, 1]" "shape uni_target = [1, 1, 4, 1]"
    by (simp_all add: uni_pred_def uni_target_def tensor_ok_def)
  from unit_weights_are_neutral [OF h, of False uni_target]
  have "rmse uni_pred uni_target False (Some (ones [1, 1, 4, 1]))
      = rmse uni_pred uni_target False None"
    by (rule conjunct1)
  then show ?thesis
    using h by (simp add: uni_rmse_unweighted)
qed

subsection \<open>Failures of \<open>acc\<close>\<close>

lemma isl_ebind: "isl m \<Longrightarrow> isl (ebind m f)"
  by (cases m) simp_all

lemma isl_ebind_all: "(\<And>x. isl (f x)) \<Longrightarrow> isl (ebind m f)"
  by (cases m) simp_all

lemma acc_terms_None: "isl (acc_terms pred target None i)"
  by (auto simp: acc_terms_def ebind_def mul_opt_def split: sum.splits)

lemma acc_channel_None: "isl (acc_channel pred target None i)"
  by (simp add: acc_channel_def isl_ebind acc_terms_None)

lemma acc_loop_stack_None: "isl (ebind (acc_loop pred target None is) stack)"
proof (cases "is")
  case Nil
  then show ?thesis by (simp add: stack_def)
next
  case (Cons i js)
  then show ?thesis by (simp add: isl_ebind acc_channel_None)
qed

lemma acc_per_channel_None: "isl (acc_per_channel pred target climatology None)"
  unfolding acc_per_channel_def
  apply (rule isl_ebind_all)
  apply (rule isl_ebind_all)
  apply (rule isl_ebind_all)
  apply (rule acc_loop_stack_None)
  done

lemma acc_metric_None: "isl (acc_metric pred target climatology aggregate_only None)"
  by (simp add: acc_metric_def isl_ebind acc_per_channel_None)

lemma flat_anomalies:
  "sub_opt flat_pred (Some zero_clim) = Inr flat_pred"
  "sub_opt flat_target (Some zero_clim) = Inr flat_target"
  unfolding flat_pred_def flat_target_def zero_clim_def by code_simp+

lemma flat_terms:
  "acc_terms flat_pred flat_target (Some ex_weights) 0 = Inr (scalar 0, scalar 0, scalar 2)"
  unfolding flat_pred_def flat_target_def ex_defs by code_simp

lemma flat_acc:
  "acc_metric flat_pred flat_target (Some zero_clim) False (Some ex_weights)
     = Inr \<lparr>shape = [2], data = [0 / sqrt (0 * 2), 0 / sqrt (0 * 2)]\<rparr>"
  unfolding flat_pred_def flat_target_def zero_clim_def ex_defs
  by (simp add: acc_metric_def acc_per_channel_def acc_channel_def acc_terms_def tensor_defs)

lemma broadcast_scalar_right [simp]: "broadcast_shapes sh [] = Some sh"
  by (cases "rev sh") (simp_all add: broadcast_shapes_def)

lemma broadcast_lat_slice:
  "broadcast_shapes [Suc 0, Suc 0, h, Suc 0] [n, h, w] = Some [Suc 0, n, h, w]"
  by (auto simp: broadcast_shapes_def)

lemma broadcast_weighted_slice:
  "broadcast_shapes [Suc 0, n, h, w] [n, h, w] = Some [Suc 0, n, h, w]"
  by (auto simp: broadcast_shapes_def)

lemma binop_shape:
  "broadcast_shapes (shape a) (shape b) = Some sh \<Longrightarrow> \<exists>g. binop f a b = Inr (mk sh g)"
  by (simp add: binop_def) (rule exI, rule refl)

lemma binop_scalars: "\<exists>v. binop f (scalar x) (scalar y) = Inr (scalar v)"
  by (simp add: binop_def broadcast_shapes_def scalar_def mk_def)

lemma acc_terms_returns:
  assumes "i < c" "shape wt = [1, 1, h, 1]"
  shows "\<exists>a b d. acc_terms (mk [n, c, h, w] p) (mk [n, c, h, w] t) (Some wt) i
     = Inr (scalar a, scalar b, scalar d)"
proof -
  obtain p1 where p1: "select1 (mk [n, c, h, w] p) i = Inr (mk [n, h, w] p1)"
    using assms(1) by (simp add: select1_def)
  obtain t1 where t1: "select1 (mk [n, c, h, w] t) i = Inr (mk [n, h, w] t1)"
    using assms(1) by (simp add: select1_def)
  obtain p2 where p2: "sub (mk [n, h, w] p1) (mean_all (mk [n, h, w] p1)) = Inr (mk [n, h, w] p2)"
    using binop_shape [of "mk [n, h, w] p1" "mean_all (mk [n, h, w] p1)" "[n, h, w]" "(-)"]
    by (auto simp: sub_def mean_all_def scalar_def)
  obtain t2 where t2: "sub (mk [n, h, w] t1) (mean_all (mk [n, h, w] t1)) = Inr (mk [n, h, w] t2)"
    using binop_shape [of "mk [n, h, w] t1" "mean_all (mk [n, h, w] t1)" "[n, h, w]" "(-)"]
    by (auto simp: sub_def mean_all_def scalar_def)
  obtain wp where wp: "mul_opt (Some wt) (mk [n, h, w] p2) = Inr (mk [1, n, h, w] wp)"
    using binop_shape [of wt "mk [n, h, w] p2" "[1, n, h, w]" "(*)"] assms(2)
    by (auto simp: mul_opt_def mul_def broadcast_lat_slice)
  obtain wpt where wpt: "mul (mk [1, n, h, w] wp) (mk [n, h, w] t2) = Inr wpt"
    using binop_shape [of "mk [1, n, h, w] wp" "mk [n, h, w] t2" "[1, n, h, w]" "(*)"]
    by (auto simp: mul_def broadcast_weighted_slice)
  obtain wpp where wpp: "mul_opt (Some wt) (square (mk [n, h, w] p2)) = Inr wpp"
    using binop_shape [of wt "square (mk [n, h, w] p2)" "[1, n, h, w]" "(*)"] assms(2)
    by (auto simp: mul_opt_def mul_def broadcast_lat_slice)
  obtain wtt where wtt: "mul_opt (Some wt) (square (mk [n, h, w] t2)) = Inr wtt"
    using binop_shape [of wt "square (mk [n, h, w] t2)" "[1, n, h, w]" "(*)"] assms(2)
    by (auto simp: mul_opt_def mul_def broadcast_lat_slice)
  show ?thesis
    unfolding acc_terms_def
    by (simp only: p1 t1 p2 t2 wp wpt wpp wtt ebind_simps sum_all_def) blast
qed

lemma acc_channel_returns:
  assumes "i < c" "shape wt = [1, 1, h, 1]"
  shows "\<exists>v. acc_channel (mk [n, c, h, w] p) (mk [n, c, h, w] t) (Some wt) i = Inr (scalar v)"
proof -
  obtain a b d where t: "acc_terms (mk [n, c, h, w] p) (mk [n, c, h, w] t) (Some wt) i
      = Inr (scalar a, scalar b, scalar d)"
    using acc_terms_returns [OF assms] by blast
  obtain e where e: "mul (scalar b) (scalar d) = Inr (scalar e)"
    using binop_scalars [of "(*)" b d] by (auto simp: mul_def)
  have s: "sqrt_t (scalar e) = scalar (sqrt e)"
    by (simp add: sqrt_t_def map_tensor_def scalar_def)
  obtain v where v: "div_t (scalar a) (scalar (sqrt e)) = Inr (scalar v)"
    using binop_scalars [of "(/)" a "sqrt e"] by (auto simp: div_t_def)
  have "acc_channel (mk [n, c, h, w] p) (mk [n, c, h, w] t) (Some wt) i = Inr (scalar v)"
    by (simp add: acc_channel_def t e s v)
  then show ?thesis ..
qed

lemma acc_loop_returns:
  assumes "\<forall>i\<in>set is. i < c" "shape wt = [1, 1, h, 1]"
  shows "\<exists>xs. acc_loop (mk [n, c, h, w] p) (mk [n, c, h, w] t) (Some wt) is = Inr xs \<and>
           length xs = length is \<and> (\<forall>x\<in>set xs. shape x = [])"
  using assms(1)
proof (induction "is")
  case Nil
  then show ?case by simp
next
  case (Cons i js)
  then obtain xs where xs: "acc_loop (mk [n, c, h, w] p) (mk [n, c, h, w] t) (Some wt) js = Inr xs"
    "length xs = length js" "\<forall>x\<in>set xs. shape x = []"
    by auto
  from Cons.prems have "i < c" by simp
  then obtain v where v: "acc_channel (mk [n, c, h, w] p) (mk [n, c, h, w] t) (Some wt) i
      = Inr (scalar v)"
    using acc_channel_returns [OF _ assms(2)] by blast
  show ?case
    using xs by (simp add: v scalar_def)
qed

lemma acc_metric_returns:
  assumes "shape pred = [n, c, h, w]" "shape target = [n, c, h, w]" "0 < c"
    and "broadcast_shapes [n, c, h, w] (shape k) = Some [n, c, h, w]"
    and "shape wt = [1, 1, h, 1]"
  shows "\<exists>r. acc_metric pred target (Some k) False (Some wt) = Inr r \<and> shape r = [Suc c]"
proof -
  obtain p where p: "sub_opt pred (Some k) = Inr (mk [n, c, h, w] p)"
    using binop_shape [of pred k "[n, c, h, w]" "(-)"] assms(1,4)
    by (auto simp: sub_opt_def sub_def)
  obtain t where t: "sub_opt target (Some k) = Inr (mk [n, c, h, w] t)"
    using binop_shape [of target k "[n, c, h, w]" "(-)"] assms(2,4)
    by (auto simp: sub_opt_def sub_def)
  obtain xs where xs: "acc_loop (mk [n, c, h, w] p) (mk [n, c, h, w] t) (Some wt) [0..<c] = Inr xs"
    "length xs = c" "\<forall>x\<in>set xs. shape x = []"
    using acc_loop_returns [where ?is = "[0..<c]" and c = c and wt = wt and h = h
        and n = n and w = w and p = p and t = t] assms(5)
    by (auto simp del: One_nat_def)
  from xs(2) assms(3) obtain y ys where ys: "xs = y # ys"
    by (cases xs) auto
  have st: "stack xs = Inr \<lparr>shape = [c], data = concat (map data xs)\<rparr>"
    using xs(2,3) ys by (auto simp: stack_def)
  show ?thesis
    using assms(3)
    by (simp add: acc_metric_def acc_per_channel_def p t shape_at_def xs(1) st
        return_scores_def cat_def unsqueeze0_def mean_all_def scalar_def Let_def)
qed

text \<open>
  Claim C8. The claim: \<open>acc\<close> fails when the latitude weights are absent, and fails when
  one of the two denominators of a channel is zero. Without weights the product
  \<^verbatim>\<open>lat_weights * pred_prime\<close> raises (and with no channel \<^verbatim>\<open>torch.stack\<close>
  does), so that the first half holds for every input. The program has no test of the
  denominators: for a channel whose prediction is constant, \<open>denom1\<close> is zero and the
  call returns, the coefficient being the result of the division by zero.
\<close>

theorem acc_zero_denominator_counterexample:
  "sub_opt flat_pred (Some zero_clim) = Inr flat_pred \<and>
   sub_opt flat_target (Some zero_clim) = Inr flat_target \<and>
   acc_terms flat_pred flat_target (Some ex_weights) 0 = Inr (scalar 0, scalar 0, scalar 2) \<and>
   \<not> isl (acc_metric flat_pred flat_target (Some zero_clim) False (Some ex_weights))"
  by (simp add: flat_anomalies flat_terms flat_acc)

text \<open>
  Claim C8, amended. \<open>acc\<close> fails whenever the latitude weights are absent. With fields
  of shape \<open>[n, c, h, w]\<close> of at least one channel, a climatology that broadcasts to
  that shape and latitude weights of shape \<open>[1, 1, h, 1]\<close>, it returns its \<open>c + 1\<close>
  values, whatever the denominators are.
\<close>

theorem acc_fails_without_weights_only:
  assumes "shape pred = [n, c, h, w]" "shape target = [n, c, h, w]" "0 < c"
    and "broadcast_shapes [n, c, h, w] (shape clim) = Some [n, c, h, w]"
    and "shape wt = [1, 1, h, 1]"
  shows "isl (acc_metric any_pred any_target climatology aggregate_only None) \<and>
    (\<exists>r. acc_metric pred target (Some clim) False (Some wt) = Inr r \<and> shape r = [Suc c])"
  using acc_metric_None acc_metric_returns [OF assms] by blast

theorem acc_fails_without_weights_only_witness:
  "shape flat_pred = [1, 1, 1, 2] \<and> shape flat_target = [1, 1, 1, 2] \<and> (0::nat) < 1 \<and>
   broadcast_shapes [1, 1, 1, 2] (shape zero_clim) = Some [1, 1, 1, 2] \<and>
   shape ex_weights = [1, 1, 1, 1] \<and>
   isl (acc_metric flat_pred flat_target (Some zero_clim) False None) \<and>
   (\<exists>r. acc_metric flat_pred flat_target (Some zero_clim) False (Some ex_weights) = Inr r \<and>
      shape r = [Suc 1])"
proof -
  have h: "shape flat_pred = [1, 1, 1, 2]" "shape flat_target = [1, 1, 1, 2]" "(0::nat) < 1"
    "broadcast_shapes [1, 1, 1, 2] (shape zero_clim) = Some [1, 1, 1, 2]"
    "shape ex_weights = [1, 1, 1, 1]"
    by (simp_all add: flat_pred_def flat_target_def zero_clim_def ex_defs broadcast_shapes_def)
  show ?thesis
    using acc_fails_without_weights_only [OF h, of flat_pred flat_target "Some zero_clim" False] h
    by simp
qed

end
